theory Spec2Isabelle
  imports Main "HOL-Library.Word"
begin

section \<open>Basic-auth middleware and error handler of the gateway\<close>

text \<open>
  A shallow embedding of \<^verbatim>\<open>mw_basic_auth.go\<close> and \<^verbatim>\<open>gateway/handler_error.go\<close>.
  Go strings are byte strings (\<open>string\<close>), \<^verbatim>\<open>int64\<close> and \<^verbatim>\<open>time.Duration\<close> are
  \<open>64 word\<close> read with \<open>sint\<close>, an \<^verbatim>\<open>error\<close> return is an \<open>error option\<close>
  (\<open>None\<close> is \<^verbatim>\<open>nil\<close>). Everything a function mutates (the response header, the
  process-wide cache, the request context) is passed in and returned.
\<close>

subsection \<open>Package strings\<close>

text \<open>
  \<^verbatim>\<open>strings.Split(s, sep)\<close> for a one-byte separator, the only way the middleware calls
  it (\<^verbatim>\<open>" "\<close> and \<^verbatim>\<open>":"\<close>): the pieces between the separators, one more than there are
  separators.
\<close>

fun Split :: "string \<Rightarrow> char \<Rightarrow> string list" where
  "Split [] sep = [[]]"
| "Split (c # cs) sep =
     (if c = sep then [] # Split cs sep
      else (case Split cs sep of
              [] \<Rightarrow> [[c]]
            | p # ps \<Rightarrow> (c # p) # ps))"

definition HasPrefix :: "string \<Rightarrow> string \<Rightarrow> bool" where
  "HasPrefix s pre = (take (length pre) s = pre)"

definition TrimPrefix :: "string \<Rightarrow> string \<Rightarrow> string" where
  "TrimPrefix s pre = (if HasPrefix s pre then drop (length pre) s else s)"

subsection \<open>Package net/http: headers\<close>

text \<open>
  \<^verbatim>\<open>http.Header\<close> is \<^verbatim>\<open>map[string][]string\<close>. The keys are canonicalised by the
  library; the model uses one spelling for each header, as the source does.
\<close>

type_synonym header = "string \<rightharpoonup> string list"

definition header_Get :: "header \<Rightarrow> string \<Rightarrow> string" where
  "header_Get h k = (case h k of None \<Rightarrow> [] | Some [] \<Rightarrow> [] | Some (v # _) \<Rightarrow> v)"

definition header_Add :: "header \<Rightarrow> string \<Rightarrow> string \<Rightarrow> header" where
  "header_Add h k v = h(k \<mapsto> (case h k of None \<Rightarrow> [] | Some vs \<Rightarrow> vs) @ [v])"

definition header_Set :: "header \<Rightarrow> string \<Rightarrow> string \<Rightarrow> header" where
  "header_Set h k v = h(k \<mapsto> [v])"

definition header_Del :: "header \<Rightarrow> string \<Rightarrow> header" where
  "header_Del h k = h(k := None)"

definition StatusOK :: int where "StatusOK = 200"
definition StatusBadRequest :: int where "StatusBadRequest = 400"
definition StatusUnauthorized :: int where "StatusUnauthorized = 401"

subsection \<open>Data of the middleware\<close>

text \<open>\<^verbatim>\<open>errors.New(msg)\<close>, and the errors of the bcrypt package.\<close>

datatype error = Error string

text \<open>
  Modelled from the spec: \<^verbatim>\<open>user.HashType\<close> and \<^verbatim>\<open>apidef.AuthTypeEnum\<close>, string types
  declared outside the two files. A stored password is tagged \<^verbatim>\<open>PlainText\<close> or \<^verbatim>\<open>BCrypt\<close>,
  and the identity provider is Basic Auth, unset, or another one; ProcessRequest tells these
  two constants of each type from every other value, which the third constructor carries.
\<close>

datatype HashType = HashPlainText | HashBCrypt | HashOther string

datatype AuthTypeEnum = BasicAuthUser | UnsetAuth | OtherAuth string

record SessionState =
  BasicAuthData_Password :: string
  BasicAuthData_Hash :: HashType
  OauthClientID :: string
  Alias :: string
  SessionTags :: "string list"

text \<open>
  The fields of the API definition that the middleware reads (the struct is declared in
  package \<^verbatim>\<open>apidef\<close>, outside the two files). \<^verbatim>\<open>CacheTTL\<close>, the cache TTL in seconds, is a
  Go \<^verbatim>\<open>int\<close>, 64 bits on the gateway's targets; the middleware converts it to a
  \<^verbatim>\<open>time.Duration\<close>, an \<^verbatim>\<open>int64\<close>, before it multiplies.
\<close>

record APISpec =
  Name :: string
  OrgID :: string
  UseBasicAuth :: bool
  DisableCaching :: bool
  CacheTTL :: "64 word"
  ExtractFromBody :: bool
  BaseIdentityProvidedBy :: AuthTypeEnum

text \<open>
  What the middleware calls and the two files do not define: the standard library's
  \<^verbatim>\<open>base64.StdEncoding.DecodeString\<close>, \<^verbatim>\<open>bcrypt.CompareHashAndPassword\<close>, the murmur3
  64-bit sum of a byte string (as the 8 bytes \<^verbatim>\<open>hasher.Sum(nil)\<close> returns), the gateway's
  \<^verbatim>\<open>generateToken\<close> and \<^verbatim>\<open>storage.GenerateToken\<close>, the session lookup
  \<^verbatim>\<open>CheckSessionAndIdentityForValidKey\<close>, \<^verbatim>\<open>config.Global().HashKeyFunction\<close>, and the two
  compiled body patterns (\<^verbatim>\<open>FindAllSubmatch(body, 1)\<close>: at most one match, each match the
  list of its groups). They are parameters of the model.
\<close>

record deps =
  DecodeString :: "string \<Rightarrow> string option"
  bcrypt_CompareHashAndPassword :: "string \<Rightarrow> string \<Rightarrow> error option"
  murmur3_Sum :: "string \<Rightarrow> string"
  generateToken :: "string \<Rightarrow> string \<Rightarrow> string"
  storage_GenerateToken :: "string \<Rightarrow> string \<Rightarrow> string \<Rightarrow> string"
  CheckSessionAndIdentityForValidKey :: "string \<Rightarrow> SessionState option"
  HashKeyFunction :: string
  bodyUserRegexp :: "string \<Rightarrow> string list list"
  bodyPasswordRegexp :: "string \<Rightarrow> string list list"

text \<open>
  The state a request changes. \<open>basicAuthCache\<close> is the go-cache store: the value and
  the duration handed to \<^verbatim>\<open>Set\<close> for each key (expiry is the library's: it removes
  entries between calls). \<open>bcryptCalls\<close> and \<open>lookups\<close> log every call of the slow
  comparison and of the session lookup, newest last. \<open>wHeader\<close> is \<^verbatim>\<open>w.Header()\<close>,
  \<open>ctxSession\<close> what \<^verbatim>\<open>ctxSetSession\<close> bound to the request, \<open>authFailed\<close> the tokens
  of the \<^verbatim>\<open>AuthFailed\<close> events and \<open>healthValues\<close> the health reports.
\<close>

record gw_state =
  basicAuthCache :: "string \<rightharpoonup> string \<times> 64 word"
  bcryptCalls :: "(string \<times> string) list"
  lookups :: "string list"
  wHeader :: header
  ctxSession :: "(SessionState \<times> string) option"
  authFailed :: "string list"
  healthValues :: "(string \<times> string) list"

record request =
  Header :: header
  Body :: string

subsection \<open>The cache and the slow comparison\<close>

definition cache_Get :: "gw_state \<Rightarrow> string \<Rightarrow> string option" where
  "cache_Get st k = map_option fst (basicAuthCache st k)"

definition cache_Set :: "gw_state \<Rightarrow> string \<Rightarrow> string \<Rightarrow> 64 word \<Rightarrow> gw_state" where
  "cache_Set st k v d = st\<lparr>basicAuthCache := (basicAuthCache st)(k \<mapsto> (v, d))\<rparr>"

text \<open>One call of \<^verbatim>\<open>bcrypt.CompareHashAndPassword\<close>: the call is logged.\<close>

definition bcryptCompare :: "deps \<Rightarrow> gw_state \<Rightarrow> string \<Rightarrow> string \<Rightarrow> error option \<times> gw_state" where
  "bcryptCompare d st hashedPassword password =
     (bcrypt_CompareHashAndPassword d hashedPassword password,
      st\<lparr>bcryptCalls := bcryptCalls st @ [(hashedPassword, password)]\<rparr>)"

definition Second :: "64 word" where "Second = 1000000000"

definition defaultBasicAuthTTL :: "64 word" where
  "defaultBasicAuthTTL = 60 * Second"

definition doBcryptWithCache ::
  "deps \<Rightarrow> gw_state \<Rightarrow> 64 word \<Rightarrow> string \<Rightarrow> string \<Rightarrow> error option \<times> gw_state" where
  "doBcryptWithCache d st cacheDuration hashedPassword password =
     (case bcryptCompare d st hashedPassword password of
        (Some err, st1) \<Rightarrow> (Some err, st1)
      | (None, st1) \<Rightarrow>
          (None, cache_Set st1 hashedPassword (murmur3_Sum d password) cacheDuration))"

definition compareHashAndPassword ::
  "APISpec \<Rightarrow> deps \<Rightarrow> gw_state \<Rightarrow> string \<Rightarrow> string \<Rightarrow> error option \<times> gw_state" where
  "compareHashAndPassword spec d st hash password =
     (let cacheEnabled = \<not> DisableCaching spec in
      if \<not> cacheEnabled then bcryptCompare d st hash password
      else
        let cacheTTL = (if 0 <s CacheTTL spec then CacheTTL spec * Second
                        else defaultBasicAuthTTL) in
        case cache_Get st hash of
          None \<Rightarrow> doBcryptWithCache d st cacheTTL hash password
        | Some cachedPass \<Rightarrow>
            if cachedPass \<noteq> murmur3_Sum d password
            then bcryptCompare d st hash password
            else (None, st))"

subsection \<open>Credential extraction\<close>

definition requestForBasicAuth :: "APISpec \<Rightarrow> gw_state \<Rightarrow> string \<Rightarrow> (error \<times> int) \<times> gw_state" where
  "requestForBasicAuth spec st msg =
     (let authReply = ''Basic realm='' @ [CHR 0x22] @ Name spec @ [CHR 0x22] in
      ((Error msg, StatusUnauthorized),
       st\<lparr>wHeader := header_Add (wHeader st) ''WWW-Authenticate'' authReply\<rparr>))"

text \<open>
  The four named results \<^verbatim>\<open>(username, password, err, code)\<close>: on a failure the two
  strings keep their zero value.
\<close>

type_synonym credentials = "string \<times> string \<times> error option \<times> int"

definition basicAuthHeaderCredentials ::
  "APISpec \<Rightarrow> deps \<Rightarrow> gw_state \<Rightarrow> request \<Rightarrow> credentials \<times> gw_state" where
  "basicAuthHeaderCredentials spec d st r =
     (let token = header_Get (Header r) ''Authorization'' in
      if token = [] then
        (case requestForBasicAuth spec st ''Authorization field missing'' of
           ((err, code), st1) \<Rightarrow> (([], [], Some err, code), st1))
      else
        let bits = Split token CHR '' '' in
        if length bits \<noteq> 2 then
          (([], [],
            Some (Error ''Attempted access with malformed header, header not in basic auth format''),
            StatusBadRequest), st)
        else
          case DecodeString d (bits ! 1) of
            None \<Rightarrow>
              (([], [],
                Some (Error ''Attempted access with malformed header, auth data not encoded correctly''),
                StatusBadRequest), st)
          | Some authvaluesStr \<Rightarrow>
              let authValues = Split authvaluesStr CHR '':'' in
              if length authValues \<noteq> 2 then
                (([], [],
                  Some (Error ''Attempted access with malformed header, values not in basic auth format''),
                  StatusBadRequest), st)
              else ((authValues ! 0, authValues ! 1, None, 0), st))"

definition basicAuthBodyCredentials ::
  "deps \<Rightarrow> gw_state \<Rightarrow> request \<Rightarrow> credentials \<times> gw_state" where
  "basicAuthBodyCredentials d st r =
     (let body = Body r;
          userMatch = bodyUserRegexp d body in
      if length userMatch = 0 then
        (([], [], Some (Error ''Body do not contain username''), StatusBadRequest), st)
      else if length (userMatch ! 0) < 2 then
        (([], [], Some (Error ''username should be inside regexp match group''),
          StatusBadRequest), st)
      else
        let passMatch = bodyPasswordRegexp d body in
        if length passMatch = 0 then
          (([], [], Some (Error ''Body do not contain password''), StatusBadRequest), st)
        else if length (passMatch ! 0) < 2 then
          (([], [], Some (Error ''password should be inside regexp match group''),
            StatusBadRequest), st)
        else ((userMatch ! 0 ! 1, passMatch ! 0 ! 1, None, 0), st))"

subsection \<open>ProcessRequest\<close>

definition handleAuthFail :: "APISpec \<Rightarrow> gw_state \<Rightarrow> string \<Rightarrow> (error \<times> int) \<times> gw_state" where
  "handleAuthFail spec st token =
     (let st1 = st\<lparr>authFailed := authFailed st @ [token]\<rparr>;
          st2 = st1\<lparr>healthValues := healthValues st1 @ [(''KeyFailure'', ''-1'')]\<rparr>
      in requestForBasicAuth spec st2 ''User not authorised'')"

text \<open>One call of \<^verbatim>\<open>k.CheckSessionAndIdentityForValidKey(keyName, r)\<close>, logged.\<close>

definition checkSession :: "deps \<Rightarrow> gw_state \<Rightarrow> string \<Rightarrow> SessionState option \<times> gw_state" where
  "checkSession d st keyName =
     (CheckSessionAndIdentityForValidKey d keyName, st\<lparr>lookups := lookups st @ [keyName]\<rparr>)"

text \<open>
  Lines 187 to 206 of ProcessRequest: the password check by hash kind, then the binding
  of the session.
\<close>

definition checkPasswordAndBind ::
  "APISpec \<Rightarrow> deps \<Rightarrow> gw_state \<Rightarrow> string \<Rightarrow> SessionState \<Rightarrow> string \<Rightarrow> string
     \<Rightarrow> (error option \<times> int) \<times> gw_state" where
  "checkPasswordAndBind spec d st token session keyName password =
     (let (failed, st1) =
            (case BasicAuthData_Hash session of
               HashBCrypt \<Rightarrow>
                 (case compareHashAndPassword spec d st (BasicAuthData_Password session) password of
                    (Some err, st') \<Rightarrow> (True, st')
                  | (None, st') \<Rightarrow> (False, st'))
             | HashPlainText \<Rightarrow> (BasicAuthData_Password session \<noteq> password, st)
             | HashOther _ \<Rightarrow> (False, st))
      in
      if failed then
        (case handleAuthFail spec st1 token of ((err, code), st2) \<Rightarrow> ((Some err, code), st2))
      else
        let st2 = (case BaseIdentityProvidedBy spec of
                     BasicAuthUser \<Rightarrow> st1\<lparr>ctxSession := Some (session, keyName)\<rparr>
                   | UnsetAuth \<Rightarrow> st1\<lparr>ctxSession := Some (session, keyName)\<rparr>
                   | OtherAuth _ \<Rightarrow> st1)
        in ((None, StatusOK), st2))"

text \<open>Lines 167 to 185: the canonical key, then the legacy key when the mode is on.\<close>

definition resolveSession ::
  "APISpec \<Rightarrow> deps \<Rightarrow> gw_state \<Rightarrow> string \<Rightarrow> (string \<times> SessionState) option \<times> gw_state" where
  "resolveSession spec d st username =
     (let keyName = generateToken d (OrgID spec) username in
      case checkSession d st keyName of
        (Some session, st1) \<Rightarrow> (Some (keyName, session), st1)
      | (None, st1) \<Rightarrow>
          if HashKeyFunction d = [] then (None, st1)
          else
            let legacyKeyName = TrimPrefix username (OrgID spec);
                keyName' = storage_GenerateToken d (OrgID spec) legacyKeyName [] in
            (case checkSession d st1 keyName' of
               (Some session, st2) \<Rightarrow> (Some (keyName', session), st2)
             | (None, st2) \<Rightarrow> (None, st2)))"

text \<open>Lines 154 to 165: the header first, the body when configured and the header failed.\<close>

definition extractCredentials ::
  "APISpec \<Rightarrow> deps \<Rightarrow> gw_state \<Rightarrow> request \<Rightarrow> credentials \<times> gw_state" where
  "extractCredentials spec d st r =
     (case basicAuthHeaderCredentials spec d st r of
        ((username, password, None, code), st1) \<Rightarrow> ((username, password, None, code), st1)
      | ((username, password, Some err, code), st1) \<Rightarrow>
          if ExtractFromBody spec then
            basicAuthBodyCredentials d
              (st1\<lparr>wHeader := header_Del (wHeader st1) ''WWW-Authenticate''\<rparr>) r
          else ((username, password, Some err, code), st1))"

definition ProcessRequest ::
  "APISpec \<Rightarrow> deps \<Rightarrow> gw_state \<Rightarrow> request \<Rightarrow> (error option \<times> int) \<times> gw_state" where
  "ProcessRequest spec d st r =
     (case extractCredentials spec d st r of
        ((username, password, Some err, code), st1) \<Rightarrow> ((Some err, code), st1)
      | ((username, password, None, code), st1) \<Rightarrow>
          let token = header_Get (Header r) ''Authorization'' in
          (case resolveSession spec d st1 username of
             (None, st2) \<Rightarrow>
               (case handleAuthFail spec st2 token of
                  ((err, code'), st3) \<Rightarrow> ((Some err, code'), st3))
           | (Some (keyName, session), st2) \<Rightarrow>
               checkPasswordAndBind spec d st2 token session keyName password))"

subsection \<open>Package strconv and package time\<close>

text \<open>\<^verbatim>\<open>strconv.Itoa\<close>: the decimal digits, a minus sign first for a negative number.\<close>

definition digit_char :: "nat \<Rightarrow> char" where
  "digit_char n = ''0123456789'' ! n"

fun digits :: "nat \<Rightarrow> string" where
  "digits n = (if n < 10 then [digit_char n] else digits (n div 10) @ [digit_char (n mod 10)])"

declare digits.simps [simp del]

definition Itoa :: "int \<Rightarrow> string" where
  "Itoa i = (if i < 0 then CHR ''-'' # digits (nat (- i)) else digits (nat i))"

text \<open>
  A \<^verbatim>\<open>time.Time\<close> is the number of nanoseconds since the Unix epoch, an unbounded
  \<open>int\<close> (the library keeps seconds and nanoseconds apart and adds a duration
  exactly). \<^verbatim>\<open>t.Add(d)\<close> adds the signed duration, \<^verbatim>\<open>t.Unix()\<close> is the whole seconds,
  rounded down. A \<^verbatim>\<open>time.Duration\<close> is an \<^verbatim>\<open>int64\<close> of nanoseconds: its arithmetic wraps.
\<close>

definition Hour :: "64 word" where "Hour = 3600 * Second"

definition time_Add :: "int \<Rightarrow> 64 word \<Rightarrow> int" where
  "time_Add t d = t + sint d"

definition time_Unix :: "int \<Rightarrow> int" where
  "time_Unix t = t div 1000000000"

subsection \<open>The error handler\<close>

text \<open>
  Modelled from the spec: the constants of package \<^verbatim>\<open>headers\<close> that \<^verbatim>\<open>HandleError\<close> uses
  (the package is outside the two files): the \<^verbatim>\<open>Content-Type\<close> header with its values
  \<^verbatim>\<open>application/json\<close> and \<^verbatim>\<open>application/xml\<close>, the header that names the generator, the
  connection header and the user agent header. Then the three constants at the top of the
  file.
\<close>

definition ContentType :: string where "ContentType = ''Content-Type''"
definition ApplicationXML :: string where "ApplicationXML = ''application/xml''"
definition ApplicationJSON :: string where "ApplicationJSON = ''application/json''"
definition XGenerator :: string where "XGenerator = ''X-Generator''"
definition Connection :: string where "Connection = ''Connection''"
definition UserAgent :: string where "UserAgent = ''User-Agent''"

definition defaultTemplateName :: string where "defaultTemplateName = ''error''"
definition defaultTemplateFormat :: string where "defaultTemplateFormat = ''json''"
definition defaultContentType :: string where "defaultContentType = ApplicationJSON"

text \<open>The fields of the API specification and of its global configuration that are read.\<close>

record ErrorHandlerSpec =
  spec_Name :: string
  spec_APIID :: string
  spec_OrgID :: string
  DoNotTrack :: bool
  Proxy_StripListenPath :: bool
  ExpireAnalyticsAfter :: "64 word"
  TagHeaders :: "string list"
  target_Host :: "string option"
  HideGeneratorHeader :: bool
  CloseConnections :: bool
  EnforceOrgDataAge :: bool

text \<open>
  The request as the handler reads it: its header, method, URL host, content length, the
  client address \<^verbatim>\<open>request.RealIP(r)\<close>, and the values earlier middleware left in its
  context.
\<close>

record err_request =
  req_Header :: header
  req_Method :: string
  URL_Host :: string
  ContentLength :: "64 word"
  RealIP :: string
  ctxAuthToken :: string
  ctxGetSession :: "SessionState option"
  ctxTrackedPath :: string
  ctxDoNotTrack :: bool

text \<open>
  What the handler calls and the file does not define: the template collection
  (\<^verbatim>\<open>templates.Lookup\<close>, a template given by its text), \<^verbatim>\<open>template.JSEscapeString\<close>,
  the rendering \<^verbatim>\<open>tmpl.Execute\<close>, \<^verbatim>\<open>GlobalConfig.StoreAnalytics\<close>, \<^verbatim>\<open>addVersionHeader\<close>,
  \<^verbatim>\<open>getVersionFromRequest\<close>, \<^verbatim>\<open>Spec.StripListenPath\<close>, \<^verbatim>\<open>getSessionTags\<close>, \<^verbatim>\<open>tagHeaders\<close>,
  \<^verbatim>\<open>recordDetail\<close>, the base64 of the request's wire format, \<^verbatim>\<open>OrgSessionExpiry\<close>, and
  the three readings of the clock (line 164, line 231 and line 273).
\<close>

record err_deps =
  templates_Lookup :: "string \<Rightarrow> string option"
  JSEscapeString :: "string \<Rightarrow> string"
  Execute :: "string \<Rightarrow> string \<Rightarrow> string"
  StoreAnalytics :: "string \<Rightarrow> bool"
  addVersionHeader :: "header \<Rightarrow> header"
  getVersionFromRequest :: string
  StripListenPath :: "string \<Rightarrow> string"
  getSessionTags :: "SessionState \<Rightarrow> string list"
  tagHeaders :: "header \<Rightarrow> string list \<Rightarrow> string list \<Rightarrow> string list"
  recordDetail :: bool
  wireFormatBase64 :: string
  OrgSessionExpiry :: "string \<Rightarrow> 64 word"
  now_t :: int
  now_TimeStamp :: int
  now_calcExpiry :: int

text \<open>
  The analytics record, without the calendar fields (day, month, year, hour of the first
  clock reading) and the empty latency, geo and network parts.
\<close>

record AnalyticsRecord =
  rec_Method :: string
  rec_Host :: string
  rec_Path :: string
  rec_RawPath :: string
  rec_ContentLength :: "64 word"
  rec_UserAgent :: string
  rec_ResponseCode :: "32 word"
  rec_APIKey :: string
  rec_TimeStamp :: int
  rec_APIVersion :: string
  rec_APIName :: string
  rec_APIID :: string
  rec_OrgID :: string
  rec_RawRequest :: string
  rec_RawResponse :: string
  rec_IPAddress :: string
  rec_Tags :: "string list"
  rec_Alias :: string
  rec_TrackPath :: bool
  rec_ExpireAt :: int

text \<open>
  What the handler changes: \<^verbatim>\<open>w.Header()\<close>, the response as written (\<^verbatim>\<open>WriteHeader\<close>
  sends the status with the header as it stands at that moment; the name of the template
  executed and the body it wrote), \<^verbatim>\<open>r.URL.Path\<close>, the records handed to
  \<^verbatim>\<open>analytics.RecordHit\<close> and the health reports. Executing a nil template is a nil
  dereference: the handler ends in \<open>Panic\<close> with the state reached, and nothing after
  it runs. The deferred \<^verbatim>\<open>UpdateRequestSession\<close> and the heap profile are outside the file
  and left out.
\<close>

record err_state =
  respHeader :: header
  respWritten :: "(int \<times> header) option"
  respTemplate :: "string option"
  respBody :: "string option"
  URL_Path :: string
  recordHits :: "AnalyticsRecord list"
  healthReports :: "(string \<times> string) list"

datatype outcome = Return err_state | Panic err_state

definition state_of :: "outcome \<Rightarrow> err_state" where
  "state_of out = (case out of Return st \<Rightarrow> st | Panic st \<Rightarrow> st)"

text \<open>Lines 101 to 148: the response.\<close>

definition writeErrorResponse ::
  "ErrorHandlerSpec \<Rightarrow> err_deps \<Rightarrow> err_state \<Rightarrow> err_request \<Rightarrow> string \<Rightarrow> int \<Rightarrow> outcome" where
  "writeErrorResponse spec d st r errMsg errCode =
     (let (templateExtension, contentType) =
            (if header_Get (req_Header r) ContentType = ApplicationXML
             then (''xml'', ApplicationXML) else (''json'', ApplicationJSON));
          w1 = header_Set (respHeader st) ContentType contentType;
          templateName1 = ''error_'' @ Itoa errCode @ ''.'' @ templateExtension;
          tmpl1 = templates_Lookup d templateName1;
          (templateName2, tmpl2) =
            (if tmpl1 = None
             then (defaultTemplateName @ ''.'' @ templateExtension,
                   templates_Lookup d (defaultTemplateName @ ''.'' @ templateExtension))
             else (templateName1, tmpl1));
          (templateName3, tmpl3, w2) =
            (if tmpl2 = None
             then (defaultTemplateName @ ''.'' @ defaultTemplateFormat,
                   templates_Lookup d (defaultTemplateName @ ''.'' @ defaultTemplateFormat),
                   header_Set w1 ContentType defaultContentType)
             else (templateName2, tmpl2, w1));
          w3 = (if \<not> HideGeneratorHeader spec then header_Add w2 XGenerator ''tyk.io'' else w2);
          w4 = (if CloseConnections spec then header_Add w3 Connection ''close'' else w3);
          st1 = st\<lparr>respHeader := w4, respWritten := Some (errCode, w4)\<rparr>
      in case tmpl3 of
           None \<Rightarrow> Panic st1
         | Some tmpl \<Rightarrow>
             Return (st1\<lparr>respTemplate := Some templateName3,
                         respBody := Some (Execute d tmpl (JSEscapeString d errMsg))\<rparr>))"

text \<open>Lines 178 to 181.\<close>

definition normalisePath :: "string \<Rightarrow> string" where
  "normalisePath path =
     (let path1 = ''/'' @ path in
      if HasPrefix path1 ''//'' then TrimPrefix path1 ''/'' else path1)"

text \<open>Lines 257 to 264: the retention, and lines 266 to 276: \<^verbatim>\<open>calcExpiry\<close>.\<close>

definition expiresAfterOf :: "ErrorHandlerSpec \<Rightarrow> err_deps \<Rightarrow> 64 word" where
  "expiresAfterOf spec d =
     (if EnforceOrgDataAge spec then
        (let orgExpireDataTime = OrgSessionExpiry d (spec_OrgID spec) in
         if 0 <s orgExpireDataTime then orgExpireDataTime else ExpireAnalyticsAfter spec)
      else ExpireAnalyticsAfter spec)"

definition calcExpiry :: "err_deps \<Rightarrow> 64 word \<Rightarrow> int" where
  "calcExpiry d expiresAfter =
     (let expiry = (if expiresAfter = 0 then (24 * Hour) * (365 * 100)
                    else expiresAfter * Second);
          t = now_calcExpiry d;
          t2 = time_Add t expiry
      in t2)"

text \<open>Lines 163 to 298: the analytics record.\<close>

definition recordError ::
  "ErrorHandlerSpec \<Rightarrow> err_deps \<Rightarrow> err_state \<Rightarrow> err_request \<Rightarrow> int \<Rightarrow> err_state" where
  "recordError spec d st r errCode =
     (let token = ctxAuthToken r;
          t = now_t d;
          w1 = addVersionHeader d (respHeader st);
          version = (if getVersionFromRequest d = [] then ''Non Versioned''
                     else getVersionFromRequest d);
          path1 = (if Proxy_StripListenPath spec then StripListenPath d (URL_Path st)
                   else URL_Path st);
          path2 = normalisePath path1;
          session = ctxGetSession r;
          (alias, tags1) = (case session of
                              None \<Rightarrow> ([], [])
                            | Some s \<Rightarrow> (Alias s, [] @ getSessionTags d s));
          tags2 = (if length (TagHeaders spec) > 0
                   then tagHeaders d (req_Header r) (TagHeaders spec) tags1 else tags1);
          rawRequest = (if recordDetail d then wireFormatBase64 d else []);
          rawResponse = [];
          (trackEP, trackedPath) =
            (if ctxTrackedPath r \<noteq> [] \<and> \<not> ctxDoNotTrack r
             then (True, ctxTrackedPath r) else (False, path2));
          host = (if URL_Host r = []
                  then (case target_Host spec of None \<Rightarrow> URL_Host r | Some h \<Rightarrow> h)
                  else URL_Host r);
          record0 = \<lparr>rec_Method = req_Method r, rec_Host = host, rec_Path = trackedPath,
                     rec_RawPath = path2, rec_ContentLength = ContentLength r,
                     rec_UserAgent = header_Get (req_Header r) UserAgent,
                     rec_ResponseCode = word_of_int errCode, rec_APIKey = token,
                     rec_TimeStamp = time_Unix (now_TimeStamp d), rec_APIVersion = version,
                     rec_APIName = spec_Name spec, rec_APIID = spec_APIID spec,
                     rec_OrgID = spec_OrgID spec, rec_RawRequest = rawRequest,
                     rec_RawResponse = rawResponse, rec_IPAddress = RealIP r,
                     rec_Tags = tags2, rec_Alias = alias, rec_TrackPath = trackEP,
                     rec_ExpireAt = time_Unix t\<rparr>;
          expiresAfter = expiresAfterOf spec d;
          record1 = record0\<lparr>rec_ExpireAt := time_Unix (calcExpiry d expiresAfter)\<rparr>
      in st\<lparr>respHeader := w1, URL_Path := path2, recordHits := recordHits st @ [record1]\<rparr>)"

text \<open>Lines 150 to 305: what follows the response, when it was written.\<close>

definition trackError ::
  "ErrorHandlerSpec \<Rightarrow> err_deps \<Rightarrow> err_state \<Rightarrow> err_request \<Rightarrow> int \<Rightarrow> err_state" where
  "trackError spec d st r errCode =
     (if DoNotTrack spec then st
      else
        let st1 = (if StoreAnalytics d (RealIP r) then recordError spec d st r errCode
                   else st)
        in st1\<lparr>healthReports := healthReports st1 @ [(''BlockedRequestLog'', ''-1'')]\<rparr>)"

definition HandleError ::
  "ErrorHandlerSpec \<Rightarrow> err_deps \<Rightarrow> err_state \<Rightarrow> err_request \<Rightarrow> string \<Rightarrow> int \<Rightarrow> bool
     \<Rightarrow> outcome" where
  "HandleError spec d st r errMsg errCode writeResponse =
     (if writeResponse then
        (case writeErrorResponse spec d st r errMsg errCode of
           Panic st1 \<Rightarrow> Panic st1
         | Return st1 \<Rightarrow> Return (trackError spec d st1 r errCode))
      else Return (trackError spec d st r errCode))"

subsection \<open>Concrete collaborators, for evaluating the model\<close>

text \<open>
  The standard base64 encoding of RFC 4648 as \<^verbatim>\<open>base64.StdEncoding.DecodeString\<close> reads
  it: line breaks are skipped, every group of four characters gives three bytes, and only
  the last group may end in one or two padding characters.
\<close>

definition b64_val :: "char \<Rightarrow> nat option" where
  "b64_val c =
     (let n = (of_char c :: nat) in
      if 65 \<le> n \<and> n \<le> 90 then Some (n - 65)
      else if 97 \<le> n \<and> n \<le> 122 then Some (n - 71)
      else if 48 \<le> n \<and> n \<le> 57 then Some (n + 4)
      else if n = 43 then Some 62
      else if n = 47 then Some 63
      else None)"

definition b64_group :: "char \<Rightarrow> char \<Rightarrow> char \<Rightarrow> char \<Rightarrow> string option" where
  "b64_group a b c d =
     (case (b64_val a, b64_val b, b64_val c, b64_val d) of
        (Some x, Some y, Some z, Some w) \<Rightarrow>
          Some [char_of (x * 4 + y div 16), char_of ((y mod 16) * 16 + z div 4),
                char_of ((z mod 4) * 64 + w)]
      | _ \<Rightarrow> None)"

fun b64_quanta :: "string \<Rightarrow> string option" where
  "b64_quanta [] = Some []"
| "b64_quanta [a, b, c, d] =
     (if c = CHR ''='' \<and> d = CHR ''='' then
        (case (b64_val a, b64_val b) of
           (Some x, Some y) \<Rightarrow> Some [char_of (x * 4 + y div 16)]
         | _ \<Rightarrow> None)
      else if d = CHR ''='' then
        (case (b64_val a, b64_val b, b64_val c) of
           (Some x, Some y, Some z) \<Rightarrow>
             Some [char_of (x * 4 + y div 16), char_of ((y mod 16) * 16 + z div 4)]
         | _ \<Rightarrow> None)
      else b64_group a b c d)"
| "b64_quanta (a # b # c # d # rest) =
     (case b64_group a b c d of
        None \<Rightarrow> None
      | Some bs \<Rightarrow> (case b64_quanta rest of None \<Rightarrow> None | Some bs2 \<Rightarrow> Some (bs @ bs2)))"
| "b64_quanta _ = None"

definition b64_DecodeString :: "string \<Rightarrow> string option" where
  "b64_DecodeString s = b64_quanta (filter (\<lambda>c. c \<noteq> CHR 0x0A \<and> c \<noteq> CHR 0x0D) s)"

text \<open>
  \<^verbatim>\<open>base64.StdEncoding.EncodeToString\<close>, what a client applies to \<^verbatim>\<open>user:pass\<close>: three bytes
  give four characters of the alphabet, and a last group of one or two bytes is padded.
\<close>

definition b64_char :: "nat \<Rightarrow> char" where
  "b64_char n =
     (if n < 26 then char_of (65 + n)
      else if n < 52 then char_of (71 + n)
      else if n < 62 then char_of (n - 4)
      else if n = 62 then CHR ''+'' else CHR ''/'')"

fun b64_EncodeToString :: "string \<Rightarrow> string" where
  "b64_EncodeToString [] = []"
| "b64_EncodeToString [a] =
     (let x = (of_char a :: nat)
      in [b64_char (x div 4), b64_char ((x mod 4) * 16), CHR ''='', CHR ''=''])"
| "b64_EncodeToString [a, b] =
     (let x = (of_char a :: nat); y = (of_char b :: nat)
      in [b64_char (x div 4), b64_char ((x mod 4) * 16 + y div 16),
          b64_char ((y mod 16) * 4), CHR ''=''])"
| "b64_EncodeToString (a # b # c # rest) =
     (let x = (of_char a :: nat); y = (of_char b :: nat); z = (of_char c :: nat)
      in [b64_char (x div 4), b64_char ((x mod 4) * 16 + y div 16),
          b64_char ((y mod 16) * 4 + z div 64), b64_char (z mod 64)]
         @ b64_EncodeToString rest)"

text \<open>
  A gateway with three users: the identity store holds the session of \<^verbatim>\<open>alice\<close>, with a
  bcrypt hash, under her canonical key, the session of \<^verbatim>\<open>bob\<close>, with a plain password,
  under his legacy key (organisation id followed by user name), and the session of
  \<^verbatim>\<open>carol\<close>, with a hash of another kind, under her canonical key. The slow comparison
  accepts exactly \<^verbatim>\<open>secret\<close> for the one stored hash. \<open>ex_sum\<close> stands in for the
  fingerprint: eight bytes, the last the length of the password, so that passwords of the
  same length collide.
\<close>

definition ex_hash :: string where
  "ex_hash = ''$2a$10$N9qo8uLOickgx2ZMRZoMye''"

definition ErrMismatchedHashAndPassword :: error where
  "ErrMismatchedHashAndPassword =
     Error ''crypto/bcrypt: hashedPassword is not the hash of the given password''"

definition ex_bcrypt :: "string \<Rightarrow> string \<Rightarrow> error option" where
  "ex_bcrypt hashedPassword password =
     (if hashedPassword = ex_hash \<and> password = ''secret'' then None
      else Some ErrMismatchedHashAndPassword)"

definition ex_sum :: "string \<Rightarrow> string" where
  "ex_sum password = replicate 7 (CHR 0x00) @ [char_of (length password)]"

definition ex_session :: "HashType \<Rightarrow> string \<Rightarrow> SessionState" where
  "ex_session kind pw =
     \<lparr>BasicAuthData_Password = pw, BasicAuthData_Hash = kind, OauthClientID = [],
      Alias = ''al'', SessionTags = []\<rparr>"

definition ex_store :: "string \<Rightarrow> SessionState option" where
  "ex_store keyName =
     (if keyName = ''key:org1:alice'' then Some (ex_session HashBCrypt ex_hash)
      else if keyName = ''org1bob'' then Some (ex_session HashPlainText ''hunter2'')
      else if keyName = ''key:org1:carol'' then Some (ex_session (HashOther ''sha256'') ''abc'')
      else None)"

definition ex_deps :: deps where
  "ex_deps =
     \<lparr>DecodeString = b64_DecodeString,
      bcrypt_CompareHashAndPassword = ex_bcrypt,
      murmur3_Sum = ex_sum,
      generateToken = (\<lambda>orgID keyID. ''key:'' @ orgID @ '':'' @ keyID),
      storage_GenerateToken = (\<lambda>orgID keyID hashAlgo. orgID @ keyID),
      CheckSessionAndIdentityForValidKey = ex_store,
      HashKeyFunction = ''murmur64'',
      bodyUserRegexp = (\<lambda>body. if take 5 body = ''user='' then [[body, drop 5 body]] else []),
      bodyPasswordRegexp = (\<lambda>body. [])\<rparr>"

definition ex_spec :: APISpec where
  "ex_spec =
     \<lparr>Name = ''api'', OrgID = ''org1'', UseBasicAuth = True, DisableCaching = False,
      CacheTTL = 0, ExtractFromBody = False, BaseIdentityProvidedBy = UnsetAuth\<rparr>"

definition ex_state :: gw_state where
  "ex_state =
     \<lparr>basicAuthCache = Map.empty, bcryptCalls = [], lookups = [], wHeader = Map.empty,
      ctxSession = None, authFailed = [], healthValues = []\<rparr>"

definition ex_request :: "string \<Rightarrow> request" where
  "ex_request authorization =
     \<lparr>Header = [''Authorization'' \<mapsto> [authorization]], Body = []\<rparr>"

text \<open>The state after \<^verbatim>\<open>alice\<close> has been verified once with the right password.\<close>

definition ex_cached :: gw_state where
  "ex_cached = cache_Set ex_state ex_hash (ex_sum ''secret'') defaultBasicAuthTTL"

definition ex_spec_ttl :: "64 word \<Rightarrow> APISpec" where
  "ex_spec_ttl ttl = ex_spec\<lparr>CacheTTL := ttl\<rparr>"

text \<open>The state after the code itself has verified the right password from a cold cache.\<close>

definition ex_verified :: gw_state where
  "ex_verified = snd (compareHashAndPassword ex_spec ex_deps ex_state ex_hash ''secret'')"

text \<open>
  The value of the challenge header, \<^verbatim>\<open>Basic realm="<api-name>"\<close>, for stating what the
  response carries.
\<close>

definition basicRealm :: "APISpec \<Rightarrow> string" where
  "basicRealm spec = ''Basic realm='' @ [CHR 0x22] @ Name spec @ [CHR 0x22]"

text \<open>A request with no header at all and the given body, and an API that reads the body.\<close>

definition ex_body_request :: "string \<Rightarrow> request" where
  "ex_body_request body = \<lparr>Header = Map.empty, Body = body\<rparr>"

definition ex_body_spec :: APISpec where
  "ex_body_spec = ex_spec\<lparr>ExtractFromBody := True\<rparr>"

text \<open>
  A state without its log of lookups and without the key names bound to the request: what
  two runs that differ only in the key that found the session have in common.
\<close>

definition unkeyed :: "gw_state \<Rightarrow> gw_state" where
  "unkeyed st = st\<lparr>lookups := [], ctxSession := map_option (\<lambda>(s, k). (s, [])) (ctxSession st)\<rparr>"

text \<open>
  The order of the templates in the words of the specification: the template of the
  status code in the negotiated format, the generic template in that format, the generic
  JSON template.
\<close>

definition spec_templateOrder :: "bool \<Rightarrow> int \<Rightarrow> string list" where
  "spec_templateOrder xml code =
     (let ext = (if xml then ''xml'' else ''json'')
      in [''error_'' @ Itoa code @ ''.'' @ ext, ''error.'' @ ext, ''error.json''])"

text \<open>
  An API with analytics on, a template collection given by the names it holds, a clock
  that reads 1700000000 seconds after the epoch, and a request with the given content type.
\<close>

definition ex_espec :: "64 word \<Rightarrow> ErrorHandlerSpec" where
  "ex_espec retention =
     \<lparr>spec_Name = ''api'', spec_APIID = ''1'', spec_OrgID = ''org1'', DoNotTrack = False,
      Proxy_StripListenPath = False, ExpireAnalyticsAfter = retention, TagHeaders = [],
      target_Host = None, HideGeneratorHeader = False, CloseConnections = False,
      EnforceOrgDataAge = False\<rparr>"

definition ex_edeps :: "string list \<Rightarrow> err_deps" where
  "ex_edeps names =
     \<lparr>templates_Lookup = (\<lambda>n. if n \<in> set names then Some (''template '' @ n) else None),
      JSEscapeString = (\<lambda>s. s),
      Execute = (\<lambda>tmpl msg. tmpl @ '': '' @ msg),
      StoreAnalytics = (\<lambda>ip. True),
      addVersionHeader = (\<lambda>h. h),
      getVersionFromRequest = [],
      StripListenPath = (\<lambda>p. p),
      getSessionTags = SessionTags,
      tagHeaders = (\<lambda>h names tags. tags),
      recordDetail = False,
      wireFormatBase64 = [],
      OrgSessionExpiry = (\<lambda>org. 60),
      now_t = 1700000000000000000,
      now_TimeStamp = 1700000000000000000,
      now_calcExpiry = 1700000000000000000\<rparr>"

definition ex_estate :: "string \<Rightarrow> err_state" where
  "ex_estate path =
     \<lparr>respHeader = Map.empty, respWritten = None, respTemplate = None, respBody = None,
      URL_Path = path, recordHits = [], healthReports = []\<rparr>"

definition ex_erequest :: "string \<Rightarrow> err_request" where
  "ex_erequest contentType =
     \<lparr>req_Header = [''Content-Type'' \<mapsto> [contentType]], req_Method = ''GET'', URL_Host = [],
      ContentLength = 0, RealIP = ''10.0.0.1'', ctxAuthToken = [], ctxGetSession = None,
      ctxTrackedPath = [], ctxDoNotTrack = False\<rparr>"

text \<open>
  Lines 135 to 142 on their own: the two headers that follow the content type, for stating
  what the response header holds.
\<close>

definition otherHeaders :: "ErrorHandlerSpec \<Rightarrow> header \<Rightarrow> header" where
  "otherHeaders spec w2 =
     (let w3 = (if \<not> HideGeneratorHeader spec then header_Add w2 XGenerator ''tyk.io'' else w2)
      in if CloseConnections spec then header_Add w3 Connection ''close'' else w3)"

section \<open>Properties\<close>

subsection \<open>Splitting\<close>

lemma Split_not_Nil [simp]: "Split s sep \<noteq> []"
  by (induction s) (auto split: list.splits)

lemma length_Split: "length (Split s sep) = Suc (count_list s sep)"
  by (induction s) (auto split: list.splits)

lemma Split_no_sep: "sep \<notin> set s \<Longrightarrow> Split s sep = [s]"
  by (induction s) auto

lemma Split_append_sep: "sep \<notin> set u \<Longrightarrow> Split (u @ sep # v) sep = u # Split v sep"
  by (induction u) (auto split: list.splits)

lemma Split_two: "sep \<notin> set u \<Longrightarrow> sep \<notin> set v \<Longrightarrow> Split (u @ sep # v) sep = [u, v]"
  by (simp add: Split_append_sep Split_no_sep)

subsection \<open>Durations\<close>

lemma seconds_no_overflow:
  fixes n :: "64 word"
  assumes "- 9223372036 \<le> sint n" and "sint n \<le> 9223372036"
  shows "sint (n * Second) = sint n * 1000000000"
proof -
  have "sint (n * Second) = signed_take_bit 63 (sint n * sint (Second :: 64 word))"
    by (simp add: sint_word_ariths)
  also have "sint (Second :: 64 word) = 1000000000"
    by (simp add: Second_def)
  also have "signed_take_bit 63 (sint n * 1000000000) = sint n * 1000000000"
    using assms by (intro signed_take_bit_int_eq_self) auto
  finally show ?thesis .
qed

subsection \<open>The two-tier password check\<close>

text \<open>
  C1. With caching enabled and a cache entry for the stored hash: when the fingerprint of
  the supplied password equals the cached one, the check succeeds and the state is the
  one it started from (no call of the slow comparison is logged); when it differs, the
  result is that of the slow comparison of the stored hash with the supplied password,
  called once, and the cache is as it was.
\<close>

theorem C1_cache_hit:
  assumes "\<not> DisableCaching spec" and "cache_Get st hash = Some cachedPass"
  shows "compareHashAndPassword spec d st hash password =
           (if murmur3_Sum d password = cachedPass then (None, st)
            else (bcrypt_CompareHashAndPassword d hash password,
                  st\<lparr>bcryptCalls := bcryptCalls st @ [(hash, password)]\<rparr>))"
  using assms by (simp add: compareHashAndPassword_def bcryptCompare_def)

lemma ex_cached_hit: "cache_Get ex_cached ex_hash = Some (ex_sum ''secret'')"
  by (simp add: ex_cached_def cache_Get_def cache_Set_def)

theorem C1_cache_hit_witness:
  "\<not> DisableCaching ex_spec \<and> cache_Get ex_cached ex_hash = Some (ex_sum ''secret'')
   \<and> compareHashAndPassword ex_spec ex_deps ex_cached ex_hash ''secret'' = (None, ex_cached)
   \<and> compareHashAndPassword ex_spec ex_deps ex_cached ex_hash ''wrong-password'' =
       (Some ErrMismatchedHashAndPassword,
        ex_cached\<lparr>bcryptCalls := bcryptCalls ex_cached @ [(ex_hash, ''wrong-password'')]\<rparr>)"
proof -
  have h1: "\<not> DisableCaching ex_spec" by (simp add: ex_spec_def)
  have s1: "murmur3_Sum ex_deps ''secret'' = ex_sum ''secret''" by (simp add: ex_deps_def)
  have s2: "murmur3_Sum ex_deps ''wrong-password'' \<noteq> ex_sum ''secret''"
    by (simp add: ex_deps_def ex_sum_def)
  have b: "bcrypt_CompareHashAndPassword ex_deps ex_hash ''wrong-password''
             = Some ErrMismatchedHashAndPassword"
    by (simp add: ex_deps_def ex_bcrypt_def)
  show ?thesis
    using C1_cache_hit [OF h1 ex_cached_hit, of ex_deps "''secret''"]
      C1_cache_hit [OF h1 ex_cached_hit, of ex_deps "''wrong-password''"]
    by (simp add: h1 ex_cached_hit s1 s2 b)
qed

lemma cacheTTL_seconds:
  assumes "sint (CacheTTL spec) \<le> 9223372036"
  shows "sint (if 0 <s CacheTTL spec then CacheTTL spec * Second else defaultBasicAuthTTL)
           = (if 0 < sint (CacheTTL spec) then sint (CacheTTL spec) else 60) * 1000000000"
proof (cases "0 < sint (CacheTTL spec)")
  case True
  then have "0 <s CacheTTL spec" by (simp add: word_sless_alt)
  moreover have "sint (CacheTTL spec * Second) = sint (CacheTTL spec) * 1000000000"
    using True assms by (intro seconds_no_overflow) auto
  ultimately show ?thesis using True by simp
next
  case False
  then have "\<not> 0 <s CacheTTL spec" by (simp add: word_sless_alt)
  then show ?thesis using False by (simp add: defaultBasicAuthTTL_def Second_def)
qed

lemma word64_eq_sint: "sint (w :: 64 word) = sint (v :: 64 word) \<Longrightarrow> w = v"
  by (simp add: word_eq_iff_signed [symmetric] signed_word_eqI)

text \<open>
  C2 (as amended). With caching enabled and no cache entry for the stored hash, the slow
  comparison is called once. When it succeeds, the stored hash is mapped to the
  fingerprint of the password with a duration of exactly \<open>CacheTTL\<close> seconds when
  \<open>CacheTTL\<close> is positive and at most 9223372036, and of 60 seconds when it is not
  positive; when it fails, its error is returned and the cache is as it was. The duration
  is a 64-bit count of nanoseconds, so a larger \<open>CacheTTL\<close> wraps around.
\<close>

theorem C2_cache_miss:
  assumes "\<not> DisableCaching spec" and "cache_Get st hash = None"
    and "sint (CacheTTL spec) \<le> 9223372036"
  shows "\<exists>ttl. sint ttl = (if 0 < sint (CacheTTL spec) then sint (CacheTTL spec) else 60)
                            * 1000000000
           \<and> compareHashAndPassword spec d st hash password =
               (case bcrypt_CompareHashAndPassword d hash password of
                  Some err \<Rightarrow>
                    (Some err, st\<lparr>bcryptCalls := bcryptCalls st @ [(hash, password)]\<rparr>)
                | None \<Rightarrow>
                    (None, st\<lparr>basicAuthCache :=
                                 (basicAuthCache st)(hash \<mapsto> (murmur3_Sum d password, ttl)),
                               bcryptCalls := bcryptCalls st @ [(hash, password)]\<rparr>))"
proof -
  let ?ttl = "if 0 <s CacheTTL spec then CacheTTL spec * Second else defaultBasicAuthTTL"
  have "compareHashAndPassword spec d st hash password =
          doBcryptWithCache d st ?ttl hash password"
    using assms(1,2) by (simp add: compareHashAndPassword_def)
  also have "\<dots> = (case bcrypt_CompareHashAndPassword d hash password of
                  Some err \<Rightarrow>
                    (Some err, st\<lparr>bcryptCalls := bcryptCalls st @ [(hash, password)]\<rparr>)
                | None \<Rightarrow>
                    (None, st\<lparr>basicAuthCache :=
                                 (basicAuthCache st)(hash \<mapsto> (murmur3_Sum d password, ?ttl)),
                               bcryptCalls := bcryptCalls st @ [(hash, password)]\<rparr>))"
    by (simp add: doBcryptWithCache_def bcryptCompare_def cache_Set_def split: option.splits)
  finally show ?thesis
    using cacheTTL_seconds [OF assms(3)] by blast
qed

theorem C2_cache_miss_witness:
  "\<not> DisableCaching (ex_spec_ttl 300) \<and> cache_Get ex_state ex_hash = None
   \<and> sint (CacheTTL (ex_spec_ttl 300)) \<le> 9223372036
   \<and> compareHashAndPassword (ex_spec_ttl 300) ex_deps ex_state ex_hash ''secret'' =
       (None, ex_state\<lparr>basicAuthCache := [ex_hash \<mapsto> (ex_sum ''secret'', 300000000000)],
                       bcryptCalls := [(ex_hash, ''secret'')]\<rparr>)
   \<and> compareHashAndPassword (ex_spec_ttl 300) ex_deps ex_state ex_hash ''guess'' =
       (Some ErrMismatchedHashAndPassword, ex_state\<lparr>bcryptCalls := [(ex_hash, ''guess'')]\<rparr>)"
proof -
  have h1: "\<not> DisableCaching (ex_spec_ttl 300)" by (simp add: ex_spec_ttl_def ex_spec_def)
  have h2: "cache_Get ex_state ex_hash = None" by (simp add: cache_Get_def ex_state_def)
  have h3: "sint (CacheTTL (ex_spec_ttl 300)) \<le> 9223372036" by (simp add: ex_spec_ttl_def)
  have c: "sint (CacheTTL (ex_spec_ttl 300)) = 300" by (simp add: ex_spec_ttl_def)
  have b1: "bcrypt_CompareHashAndPassword ex_deps ex_hash ''secret'' = None"
    by (simp add: ex_deps_def ex_bcrypt_def)
  have b2: "bcrypt_CompareHashAndPassword ex_deps ex_hash ''guess''
              = Some ErrMismatchedHashAndPassword"
    by (simp add: ex_deps_def ex_bcrypt_def)
  have m: "murmur3_Sum ex_deps = ex_sum" by (simp add: ex_deps_def)
  have e: "basicAuthCache ex_state = Map.empty" "bcryptCalls ex_state = []"
    by (simp_all add: ex_state_def)
  from C2_cache_miss [OF h1 h2 h3, of ex_deps "''secret''"]
  obtain ttl :: "64 word" where t: "sint ttl = 300000000000"
    and r: "compareHashAndPassword (ex_spec_ttl 300) ex_deps ex_state ex_hash ''secret'' =
       (None, ex_state\<lparr>basicAuthCache := [ex_hash \<mapsto> (ex_sum ''secret'', ttl)],
                       bcryptCalls := [(ex_hash, ''secret'')]\<rparr>)"
    by (auto simp: c b1 m e)
  have "sint ttl = sint (300000000000 :: 64 word)" using t by simp
  then have "ttl = 300000000000" by (rule word64_eq_sint)
  with r h1 h2 h3 C2_cache_miss [OF h1 h2 h3, of ex_deps "''guess''"]
  show ?thesis by (simp add: b2 e)
qed

text \<open>
  The claim as written fails for a \<open>CacheTTL\<close> of 9223372037 seconds: the comparison
  succeeds and the duration stored is negative.
\<close>

theorem C2_counterexample:
  "\<not> DisableCaching (ex_spec_ttl 9223372037) \<and> cache_Get ex_state ex_hash = None
   \<and> 0 < sint (CacheTTL (ex_spec_ttl 9223372037))
   \<and> fst (compareHashAndPassword (ex_spec_ttl 9223372037) ex_deps ex_state ex_hash ''secret'')
       = None
   \<and> map_option (\<lambda>e. sint (snd e))
        (basicAuthCache
           (snd (compareHashAndPassword (ex_spec_ttl 9223372037) ex_deps ex_state ex_hash
                   ''secret'')) ex_hash)
       = Some (- 9223372036709551616)"
  by (simp add: compareHashAndPassword_def doBcryptWithCache_def bcryptCompare_def cache_Set_def
      cache_Get_def ex_spec_ttl_def ex_spec_def ex_state_def ex_deps_def ex_bcrypt_def
      word_sless_alt Second_def)

text \<open>
  Any fingerprint of eight bytes sends two different passwords to the same value.
\<close>

lemma fingerprint_collision:
  fixes f :: "string \<Rightarrow> string"
  assumes "\<And>p. length (f p) = 8"
  shows "\<exists>p q. p \<noteq> q \<and> f p = f q"
proof -
  have "range f \<subseteq> {xs. set xs \<subseteq> (UNIV :: char set) \<and> length xs = 8}"
    using assms by auto
  moreover have "finite {xs. set xs \<subseteq> (UNIV :: char set) \<and> length xs = 8}"
    by (rule finite_lists_length_eq) simp
  ultimately have fin: "finite (range f)"
    by (rule finite_subset)
  have "infinite (UNIV :: string set)"
    by (rule infinite_UNIV_listI)
  with fin have "\<not> inj f"
    using finite_imageD by blast
  then show ?thesis
    by (auto simp: inj_on_def)
qed

text \<open>
  After a successful check from a cold cache, with caching enabled, the cache holds the
  fingerprint of the password for the hash, and a second password with that fingerprint
  passes without the slow comparison, whatever the slow comparison would say.
\<close>

lemma verified_then_cached:
  assumes "\<not> DisableCaching spec" and "cache_Get st hash = None"
    and "compareHashAndPassword spec d st hash p = (None, st1)"
  shows "cache_Get st1 hash = Some (murmur3_Sum d p)"
  using assms
  by (auto simp: compareHashAndPassword_def doBcryptWithCache_def bcryptCompare_def
      cache_Get_def cache_Set_def Let_def split: option.splits if_splits)

lemma collision_after_verification:
  assumes "\<not> DisableCaching spec" and "cache_Get st hash = None"
    and "compareHashAndPassword spec d st hash p = (None, st1)"
    and "murmur3_Sum d q = murmur3_Sum d p"
  shows "compareHashAndPassword spec d st1 hash q = (None, st1)"
  using verified_then_cached [OF assms(1,2,3)] assms(1,4)
  by (simp add: compareHashAndPassword_def)

text \<open>
  So for every fingerprint of eight bytes there are two passwords and a slow comparison
  that accepts the first and rejects the second, such that the second is accepted once the
  first has been verified from a cold cache.
\<close>

lemma collision_accepted:
  assumes "\<And>p. length (murmur3_Sum d p) = 8" and "\<not> DisableCaching spec"
    and "cache_Get st hash = None"
  shows "\<exists>p q bc st1.
           compareHashAndPassword spec (d\<lparr>bcrypt_CompareHashAndPassword := bc\<rparr>) st hash p
             = (None, st1)
           \<and> bc hash q \<noteq> None
           \<and> compareHashAndPassword spec (d\<lparr>bcrypt_CompareHashAndPassword := bc\<rparr>) st1 hash q
             = (None, st1)"
proof -
  from fingerprint_collision [of "murmur3_Sum d", OF assms(1)]
  obtain p q where pq: "p \<noteq> q" and c: "murmur3_Sum d p = murmur3_Sum d q" by blast
  define bc :: "string \<Rightarrow> string \<Rightarrow> error option"
    where "bc = (\<lambda>h pw. if pw = p then None else Some ErrMismatchedHashAndPassword)"
  let ?d = "d\<lparr>bcrypt_CompareHashAndPassword := bc\<rparr>"
  obtain st1 where v: "compareHashAndPassword spec ?d st hash p = (None, st1)"
    using assms(2,3)
    by (simp add: compareHashAndPassword_def doBcryptWithCache_def bcryptCompare_def bc_def
        Let_def)
  have "murmur3_Sum ?d q = murmur3_Sum ?d p" using c by simp
  from collision_after_verification [OF assms(2,3) v this]
  have "compareHashAndPassword spec ?d st1 hash q = (None, st1)" .
  moreover have "bc hash q \<noteq> None" using pq by (simp add: bc_def)
  ultimately show ?thesis using v by blast
qed

text \<open>
  C3 (as amended). With caching enabled and a cache entry for the stored hash, take a
  password that the slow comparison rejects. When its fingerprint differs from the cached
  one, the check calls the slow comparison once and returns its error. When its fingerprint
  equals the cached one, the check succeeds and the state is the one it started from: the
  slow comparison is not called and the password is accepted.
\<close>

theorem C3_wrong_password:
  assumes "\<not> DisableCaching spec" and "cache_Get st hash = Some cachedPass"
    and "bcrypt_CompareHashAndPassword d hash password = Some err"
  shows "compareHashAndPassword spec d st hash password =
           (if murmur3_Sum d password \<noteq> cachedPass
            then (Some err, st\<lparr>bcryptCalls := bcryptCalls st @ [(hash, password)]\<rparr>)
            else (None, st))"
  using assms by (simp add: compareHashAndPassword_def bcryptCompare_def)

theorem C3_wrong_password_witness:
  "\<not> DisableCaching ex_spec \<and> cache_Get ex_cached ex_hash = Some (ex_sum ''secret'')
   \<and> bcrypt_CompareHashAndPassword ex_deps ex_hash ''letmein!''
       = Some ErrMismatchedHashAndPassword
   \<and> murmur3_Sum ex_deps ''letmein!'' \<noteq> ex_sum ''secret''
   \<and> compareHashAndPassword ex_spec ex_deps ex_cached ex_hash ''letmein!'' =
       (Some ErrMismatchedHashAndPassword,
        ex_cached\<lparr>bcryptCalls := bcryptCalls ex_cached @ [(ex_hash, ''letmein!'')]\<rparr>)
   \<and> bcrypt_CompareHashAndPassword ex_deps ex_hash ''sesame''
       = Some ErrMismatchedHashAndPassword
   \<and> murmur3_Sum ex_deps ''sesame'' = ex_sum ''secret''
   \<and> compareHashAndPassword ex_spec ex_deps ex_cached ex_hash ''sesame'' = (None, ex_cached)"
proof -
  have h1: "\<not> DisableCaching ex_spec" by (simp add: ex_spec_def)
  have h3: "bcrypt_CompareHashAndPassword ex_deps ex_hash ''letmein!''
              = Some ErrMismatchedHashAndPassword"
    by (simp add: ex_deps_def ex_bcrypt_def)
  have h4: "murmur3_Sum ex_deps ''letmein!'' \<noteq> ex_sum ''secret''"
    by (simp add: ex_deps_def ex_sum_def)
  have g3: "bcrypt_CompareHashAndPassword ex_deps ex_hash ''sesame''
              = Some ErrMismatchedHashAndPassword"
    by (simp add: ex_deps_def ex_bcrypt_def)
  have g4: "murmur3_Sum ex_deps ''sesame'' = ex_sum ''secret''"
    by (simp add: ex_deps_def ex_sum_def)
  show ?thesis
    using C3_wrong_password [OF h1 ex_cached_hit h3] C3_wrong_password [OF h1 ex_cached_hit g3]
      h1 ex_cached_hit h3 h4 g3 g4
    by simp
qed


lemma ex_verified_eq:
  "ex_verified = ex_state\<lparr>basicAuthCache := [ex_hash \<mapsto> (ex_sum ''secret'', 60000000000)],
                          bcryptCalls := [(ex_hash, ''secret'')]\<rparr>"
  by (simp add: ex_verified_def compareHashAndPassword_def doBcryptWithCache_def
      bcryptCompare_def cache_Set_def cache_Get_def ex_spec_def ex_state_def ex_deps_def
      ex_bcrypt_def word_sless_alt Second_def defaultBasicAuthTTL_def)

lemma ex_collision_traced:
  "\<not> DisableCaching ex_spec
   \<and> fst (compareHashAndPassword ex_spec ex_deps ex_state ex_hash ''secret'') = None
   \<and> cache_Get ex_verified ex_hash \<noteq> None
   \<and> bcrypt_CompareHashAndPassword ex_deps ex_hash ''sesame'' = Some ErrMismatchedHashAndPassword
   \<and> compareHashAndPassword ex_spec ex_deps ex_verified ex_hash ''sesame'' = (None, ex_verified)"
    by (simp add: ex_verified_eq)
      (simp add: compareHashAndPassword_def doBcryptWithCache_def bcryptCompare_def cache_Set_def
        cache_Get_def ex_spec_def ex_state_def ex_deps_def ex_bcrypt_def ex_sum_def
        word_sless_alt Second_def defaultBasicAuthTTL_def)


lemma no_fingerprint_safe:
  "\<not> (\<exists>sum. (\<forall>p. length (sum p) = 8)
          \<and> (\<forall>bc p q st1.
                compareHashAndPassword ex_spec
                    (ex_deps\<lparr>murmur3_Sum := sum, bcrypt_CompareHashAndPassword := bc\<rparr>)
                    ex_state ex_hash p = (None, st1)
                  \<and> bc ex_hash q \<noteq> None
                \<longrightarrow> fst (compareHashAndPassword ex_spec
                           (ex_deps\<lparr>murmur3_Sum := sum, bcrypt_CompareHashAndPassword := bc\<rparr>)
                           st1 ex_hash q) \<noteq> None))"
proof (rule notI, elim exE conjE)
  fix sum :: "string \<Rightarrow> string"
  assume len: "\<forall>p. length (sum p) = 8"
    and all: "\<forall>bc p q st1.
                compareHashAndPassword ex_spec
                    (ex_deps\<lparr>murmur3_Sum := sum, bcrypt_CompareHashAndPassword := bc\<rparr>)
                    ex_state ex_hash p = (None, st1)
                  \<and> bc ex_hash q \<noteq> None
                \<longrightarrow> fst (compareHashAndPassword ex_spec
                           (ex_deps\<lparr>murmur3_Sum := sum, bcrypt_CompareHashAndPassword := bc\<rparr>)
                           st1 ex_hash q) \<noteq> None"
  have a1: "length (murmur3_Sum (ex_deps\<lparr>murmur3_Sum := sum\<rparr>) p) = 8" for p
    using len by simp
  have a2: "\<not> DisableCaching ex_spec" by (simp add: ex_spec_def)
  have a3: "cache_Get ex_state ex_hash = None" by (simp add: cache_Get_def ex_state_def)
  from collision_accepted [of "ex_deps\<lparr>murmur3_Sum := sum\<rparr>", OF a1 a2 a3]
  obtain p q bc st1 where
    v: "compareHashAndPassword ex_spec
          (ex_deps\<lparr>murmur3_Sum := sum, bcrypt_CompareHashAndPassword := bc\<rparr>)
          ex_state ex_hash p = (None, st1)"
    and r: "bc ex_hash q \<noteq> None"
    and acc: "compareHashAndPassword ex_spec
          (ex_deps\<lparr>murmur3_Sum := sum, bcrypt_CompareHashAndPassword := bc\<rparr>)
          st1 ex_hash q = (None, st1)"
    by (elim exE conjE)
  from all [rule_format, OF conjI [OF v r]] have
    "fst (compareHashAndPassword ex_spec
           (ex_deps\<lparr>murmur3_Sum := sum, bcrypt_CompareHashAndPassword := bc\<rparr>)
           st1 ex_hash q) \<noteq> None" .
  then show False unfolding acc by simp
qed

text \<open>
  The claim as written fails. With the stand-in fingerprint: after the right password
  \<^verbatim>\<open>secret\<close> has been verified and cached, the password \<^verbatim>\<open>sesame\<close>, which the slow
  comparison rejects and which has the fingerprint of \<^verbatim>\<open>secret\<close>, is accepted, and the slow
  comparison is not called. And it fails whatever the fingerprint is: there is no function
  to eight bytes for which every password that the slow comparison rejects is rejected
  after another password has been verified from a cold cache.
\<close>

theorem C3_counterexample:
  "\<not> DisableCaching ex_spec
   \<and> fst (compareHashAndPassword ex_spec ex_deps ex_state ex_hash ''secret'') = None
   \<and> cache_Get ex_verified ex_hash \<noteq> None
   \<and> bcrypt_CompareHashAndPassword ex_deps ex_hash ''sesame'' = Some ErrMismatchedHashAndPassword
   \<and> compareHashAndPassword ex_spec ex_deps ex_verified ex_hash ''sesame'' = (None, ex_verified)
   \<and> \<not> (\<exists>sum. (\<forall>p. length (sum p) = 8)
          \<and> (\<forall>bc p q st1.
                compareHashAndPassword ex_spec
                    (ex_deps\<lparr>murmur3_Sum := sum, bcrypt_CompareHashAndPassword := bc\<rparr>)
                    ex_state ex_hash p = (None, st1)
                  \<and> bc ex_hash q \<noteq> None
                \<longrightarrow> fst (compareHashAndPassword ex_spec
                           (ex_deps\<lparr>murmur3_Sum := sum, bcrypt_CompareHashAndPassword := bc\<rparr>)
                           st1 ex_hash q) \<noteq> None))"
proof -
  note t = ex_collision_traced
  show ?thesis
    by (intro conjI t [THEN conjunct1] t [THEN conjunct2, THEN conjunct1]
        t [THEN conjunct2, THEN conjunct2, THEN conjunct1]
        t [THEN conjunct2, THEN conjunct2, THEN conjunct2, THEN conjunct1]
        t [THEN conjunct2, THEN conjunct2, THEN conjunct2, THEN conjunct2]
        no_fingerprint_safe)
qed

subsection \<open>The base64 codec\<close>

lemma b64_byte1: fixes x y :: nat assumes "y < 256"
  shows "x div 4 * 4 + (x mod 4 * 16 + y div 16) div 16 = x"
proof -
  have "y div 16 < 16" using assms by simp
  then have "(x mod 4 * 16 + y div 16) div 16 = x mod 4" by simp
  then show ?thesis by simp
qed

lemma b64_byte2: fixes y z :: nat assumes "y < 256" "z < 256"
  shows "(x mod 4 * 16 + y div 16) mod 16 * 16 + (y mod 16 * 4 + z div 64) div 4 = y"
proof -
  have "y div 16 < 16" using assms by simp
  then have 1: "(x mod 4 * 16 + y div 16) mod 16 = y div 16" by simp
  have "z div 64 < 4" using assms by simp
  then have 2: "(y mod 16 * 4 + z div 64) div 4 = y mod 16" by simp
  show ?thesis unfolding 1 2 by simp
qed

lemma b64_byte3: fixes y z :: nat assumes "z < 256"
  shows "(y mod 16 * 4 + z div 64) mod 4 * 64 + z mod 64 = z"
proof -
  have "z div 64 < 4" using assms by simp
  then have 1: "(y mod 16 * 4 + z div 64) mod 4 = z div 64" by simp
  show ?thesis unfolding 1 by simp
qed

lemma b64_byte1_pad: fixes x :: nat shows "x div 4 * 4 + (x mod 4 * 16) div 16 = x"
  by simp

lemma b64_byte2_pad: fixes y :: nat assumes "y < 256"
  shows "(x mod 4 * 16 + y div 16) mod 16 * 16 + (y mod 16 * 4) div 4 = y"
proof -
  have "y div 16 < 16" using assms by simp
  then have 1: "(x mod 4 * 16 + y div 16) mod 16 = y div 16" by simp
  show ?thesis unfolding 1 by simp
qed

lemma b64_sextets: fixes x y z :: nat
  assumes "x < 256" "y < 256" "z < 256"
  shows "x div 4 < 64" "x mod 4 * 16 + y div 16 < 64" "y mod 16 * 4 + z div 64 < 64"
    and "z mod 64 < 64" "x mod 4 * 16 < 64" "y mod 16 * 4 < 64"
proof -
  have a: "x mod 4 < 4" "y mod 16 < 16" "y div 16 < 16" "z div 64 < 4" "x div 4 < 64"
    using assms by simp_all
  show "x div 4 < 64" using a by simp
  show "x mod 4 * 16 + y div 16 < 64" using a(1,3) by linarith
  show "y mod 16 * 4 + z div 64 < 64" using a(2,4) by linarith
  show "z mod 64 < 64" by simp
  show "x mod 4 * 16 < 64" using a(1) by linarith
  show "y mod 16 * 4 < 64" using a(2) by linarith
qed


lemma of_char_b64_char:
  "n < 64 \<Longrightarrow> (of_char (b64_char n) :: nat) =
     (if n < 26 then 65 + n else if n < 52 then 71 + n else if n < 62 then n - 4
      else if n = 62 then 43 else 47)"
  by (simp add: b64_char_def)

lemma b64_val_char: "n < 64 \<Longrightarrow> b64_val (b64_char n) = Some n"
  by (auto simp: b64_val_def of_char_b64_char Let_def)

lemma b64_char_neq:
  assumes "n < 64"
  shows "b64_char n \<noteq> CHR ''=''" "b64_char n \<noteq> CHR '' ''" "b64_char n \<noteq> CHR 0x0A"
    "b64_char n \<noteq> CHR 0x0D"
proof -
  have "(of_char (b64_char n) :: nat) \<notin> {61, 32, 10, 13}"
    using assms by (auto simp: of_char_b64_char split: if_splits)
  then show "b64_char n \<noteq> CHR ''=''" "b64_char n \<noteq> CHR '' ''" "b64_char n \<noteq> CHR 0x0A"
    "b64_char n \<noteq> CHR 0x0D"
    by auto
qed




lemma b64_group_enc:
  fixes a b c :: char
  defines "x \<equiv> (of_char a :: nat)" and "y \<equiv> (of_char b :: nat)" and "z \<equiv> (of_char c :: nat)"
  shows "b64_group (b64_char (x div 4)) (b64_char (x mod 4 * 16 + y div 16))
           (b64_char (y mod 16 * 4 + z div 64)) (b64_char (z mod 64)) = Some [a, b, c]"
proof -
  have lt: "x < 256" "y < 256" "z < 256" by (simp_all add: x_def y_def z_def)
  note sx = b64_sextets [OF lt]
  have v: "b64_val (b64_char (x div 4)) = Some (x div 4)"
    "b64_val (b64_char (x mod 4 * 16 + y div 16)) = Some (x mod 4 * 16 + y div 16)"
    "b64_val (b64_char (y mod 16 * 4 + z div 64)) = Some (y mod 16 * 4 + z div 64)"
    "b64_val (b64_char (z mod 64)) = Some (z mod 64)"
    using sx by (simp_all only: b64_val_char)
  have c: "char_of x = a" "char_of y = b" "char_of z = c"
    by (simp_all add: x_def y_def z_def)
  show ?thesis
    unfolding b64_group_def v
    by (simp only: b64_byte1 [OF lt(2)] b64_byte2 [OF lt(2,3)] b64_byte3 [OF lt(3)] c prod.case option.case)
qed

lemma b64_quanta_one:
  fixes a :: char
  defines "x \<equiv> (of_char a :: nat)"
  shows "b64_quanta [b64_char (x div 4), b64_char (x mod 4 * 16), CHR ''='', CHR ''='']
           = Some [a]"
proof -
  have lt: "x < 256" by (simp add: x_def)
  note sx = b64_sextets [OF lt lt lt]
  have v: "b64_val (b64_char (x div 4)) = Some (x div 4)"
    "b64_val (b64_char (x mod 4 * 16)) = Some (x mod 4 * 16)"
    using sx by (simp_all only: b64_val_char)
  have c: "char_of x = a" by (simp add: x_def)
  have "b64_quanta [b64_char (x div 4), b64_char (x mod 4 * 16), CHR ''='', CHR ''='']
          = Some [char_of (x div 4 * 4 + x mod 4 * 16 div 16)]"
    by (simp only: b64_quanta.simps v prod.case option.case simp_thms if_True)
  then show ?thesis by (simp only: b64_byte1_pad c)
qed

lemma b64_quanta_two:
  fixes a b :: char
  defines "x \<equiv> (of_char a :: nat)" and "y \<equiv> (of_char b :: nat)"
  shows "b64_quanta [b64_char (x div 4), b64_char (x mod 4 * 16 + y div 16),
                     b64_char (y mod 16 * 4), CHR ''='']
           = Some [a, b]"
proof -
  have lt: "x < 256" "y < 256" by (simp_all add: x_def y_def)
  note sx = b64_sextets [OF lt lt(2)]
  have v: "b64_val (b64_char (x div 4)) = Some (x div 4)"
    "b64_val (b64_char (x mod 4 * 16 + y div 16)) = Some (x mod 4 * 16 + y div 16)"
    "b64_val (b64_char (y mod 16 * 4)) = Some (y mod 16 * 4)"
    using sx by (simp_all only: b64_val_char)
  have n: "b64_char (y mod 16 * 4) \<noteq> CHR ''=''"
    using sx by (simp only: b64_char_neq simp_thms)
  have c: "char_of x = a" "char_of y = b" by (simp_all add: x_def y_def)
  have "b64_quanta [b64_char (x div 4), b64_char (x mod 4 * 16 + y div 16),
                     b64_char (y mod 16 * 4), CHR ''='']
          = Some [char_of (x div 4 * 4 + (x mod 4 * 16 + y div 16) div 16),
                  char_of ((x mod 4 * 16 + y div 16) mod 16 * 16 + y mod 16 * 4 div 4)]"
    by (simp only: b64_quanta.simps v n prod.case option.case simp_thms if_True if_False)
  then show ?thesis by (simp only: b64_byte1 [OF lt(2)] b64_byte2_pad [OF lt(2)] c)
qed

lemma b64_enc_chars:
  "e \<in> set (b64_EncodeToString s) \<Longrightarrow> e \<noteq> CHR '' '' \<and> e \<noteq> CHR 0x0A \<and> e \<noteq> CHR 0x0D"
proof (induction s arbitrary: e rule: b64_EncodeToString.induct)
  case 1
  then show ?case by simp
next
  case (2 a)
  have lt: "(of_char a :: nat) < 256" by simp
  note sx = b64_sextets [OF lt lt lt]
  from 2 show ?case by (auto simp: Let_def b64_char_neq sx)
next
  case (3 a b)
  have lt: "(of_char a :: nat) < 256" "(of_char b :: nat) < 256" by simp_all
  note sx = b64_sextets [OF lt lt(2)]
  from 3 show ?case by (auto simp: Let_def b64_char_neq sx)
next
  case (4 a b c rest)
  have lt: "(of_char a :: nat) < 256" "(of_char b :: nat) < 256" "(of_char c :: nat) < 256"
    by simp_all
  note sx = b64_sextets [OF lt]
  from 4 show ?case by (auto simp: Let_def b64_char_neq sx)
qed

lemma b64_quanta_enc: "b64_quanta (b64_EncodeToString s) = Some s"
proof (induction s rule: b64_EncodeToString.induct)
  case 1
  then show ?case by simp
next
  case (2 a)
  show ?case by (simp only: b64_EncodeToString.simps Let_def b64_quanta_one)
next
  case (3 a b)
  show ?case by (simp only: b64_EncodeToString.simps Let_def b64_quanta_two)
next
  case (4 a b c rest)
  let ?x = "of_char a :: nat" and ?y = "of_char b :: nat" and ?z = "of_char c :: nat"
  have lt: "?x < 256" "?y < 256" "?z < 256" by simp_all
  note sx = b64_sextets [OF lt]
  have n: "b64_char (?y mod 16 * 4 + ?z div 64) \<noteq> CHR ''=''" "b64_char (?z mod 64) \<noteq> CHR ''=''"
    using sx by (simp_all only: b64_char_neq simp_thms)
  have e: "b64_EncodeToString (a # b # c # rest) =
             b64_char (?x div 4) # b64_char (?x mod 4 * 16 + ?y div 16)
               # b64_char (?y mod 16 * 4 + ?z div 64) # b64_char (?z mod 64)
               # b64_EncodeToString rest"
    by (simp only: b64_EncodeToString.simps Let_def append_Cons append_Nil)
  show ?case
  proof (cases "b64_EncodeToString rest")
    case Nil
    then have "rest = []" by (cases rest rule: b64_EncodeToString.cases) (simp_all add: Let_def)
    then show ?thesis
      unfolding e by (simp add: n b64_group_enc)
  next
    case (Cons e1 es)
    with 4 have "b64_quanta (e1 # es) = Some rest" by simp
    then show ?thesis
      unfolding e Cons by (simp add: b64_group_enc)
  qed
qed

lemma b64_roundtrip: "b64_DecodeString (b64_EncodeToString s) = Some s"
proof -
  have "filter (\<lambda>c. c \<noteq> CHR 0x0A \<and> c \<noteq> CHR 0x0D) (b64_EncodeToString s) = b64_EncodeToString s"
    using b64_enc_chars [of _ s] by (simp add: filter_id_conv)
  then show ?thesis by (simp add: b64_DecodeString_def b64_quanta_enc)
qed

lemma b64_no_space: "CHR '' '' \<notin> set (b64_EncodeToString s)"
  using b64_enc_chars [of "CHR '' ''" s] by auto

subsection \<open>Credentials from the header\<close>

lemma header_creds_token:
  assumes "header_Get (Header r) ''Authorization'' = scheme @ CHR '' '' # payload"
    and "CHR '' '' \<notin> set scheme" and "CHR '' '' \<notin> set payload"
  shows "basicAuthHeaderCredentials spec d st r =
           (case DecodeString d payload of
              None \<Rightarrow>
                (([], [],
                  Some (Error
                    ''Attempted access with malformed header, auth data not encoded correctly''),
                  400), st)
            | Some decoded \<Rightarrow>
                if length (Split decoded CHR '':'') \<noteq> 2 then
                  (([], [],
                    Some (Error
                      ''Attempted access with malformed header, values not in basic auth format''),
                    400), st)
                else ((Split decoded CHR '':'' ! 0, Split decoded CHR '':'' ! 1, None, 0), st))"
proof -
  have "Split (scheme @ CHR '' '' # payload) CHR '' '' = [scheme, payload]"
    using assms(2,3) by (rule Split_two)
  then show ?thesis
    by (simp add: basicAuthHeaderCredentials_def assms(1) StatusBadRequest_def Let_def
        split: option.splits)
qed

text \<open>
  C5 (as amended). Let the token be the first value of the \<^verbatim>\<open>Authorization\<close> header, empty
  when the header is absent. An empty token gives error 401 and adds the challenge header.
  A token that is not empty and does not hold exactly one space gives error 400 and
  leaves the response header alone; so does a token \<^verbatim>\<open>scheme payload\<close> whose payload does
  not decode, or decodes to a string without exactly one colon. A token
  \<^verbatim>\<open>scheme payload\<close> whose payload decodes to \<^verbatim>\<open>user:pass\<close>, with no colon in either part,
  gives exactly \<^verbatim>\<open>(user, pass)\<close> with no error and leaves the response header alone; with
  the standard decoder, so does every token \<^verbatim>\<open>scheme base64(user:pass)\<close>.
\<close>

theorem C5_header_credentials:
  fixes spec :: APISpec and d :: deps and st :: gw_state and r :: request
  defines "token \<equiv> header_Get (Header r) ''Authorization''"
  defines "res \<equiv> basicAuthHeaderCredentials spec d st r"
  shows
   "(token = [] \<longrightarrow>
       res = (([], [], Some (Error ''Authorization field missing''), 401),
              st\<lparr>wHeader := header_Add (wHeader st) ''WWW-Authenticate'' (basicRealm spec)\<rparr>))
    \<and> (token \<noteq> [] \<and> count_list token CHR '' '' \<noteq> 1 \<longrightarrow>
         (\<exists>msg. res = (([], [], Some (Error msg), 400), st)))
    \<and> (\<forall>scheme payload.
          token = scheme @ CHR '' '' # payload \<and> CHR '' '' \<notin> set scheme
            \<and> CHR '' '' \<notin> set payload \<longrightarrow>
          (case DecodeString d payload of
             None \<Rightarrow> (\<exists>msg. res = (([], [], Some (Error msg), 400), st))
           | Some decoded \<Rightarrow>
               (count_list decoded CHR '':'' \<noteq> 1 \<longrightarrow>
                  (\<exists>msg. res = (([], [], Some (Error msg), 400), st)))
               \<and> (\<forall>user pass. decoded = user @ CHR '':'' # pass \<and> CHR '':'' \<notin> set user
                      \<and> CHR '':'' \<notin> set pass \<longrightarrow>
                    res = ((user, pass, None, 0), st))))
    \<and> (DecodeString d = b64_DecodeString \<longrightarrow>
         (\<forall>scheme user pass.
            token = scheme @ CHR '' '' # b64_EncodeToString (user @ CHR '':'' # pass)
              \<and> CHR '' '' \<notin> set scheme \<and> CHR '':'' \<notin> set user \<and> CHR '':'' \<notin> set pass \<longrightarrow>
            res = ((user, pass, None, 0), st)))"
proof (intro conjI impI allI)
  assume "token = []"
  then show "res = (([], [], Some (Error ''Authorization field missing''), 401),
              st\<lparr>wHeader := header_Add (wHeader st) ''WWW-Authenticate'' (basicRealm spec)\<rparr>)"
    by (simp add: res_def token_def basicAuthHeaderCredentials_def requestForBasicAuth_def
        StatusUnauthorized_def basicRealm_def)
next
  assume "token \<noteq> [] \<and> count_list token CHR '' '' \<noteq> 1"
  then show "\<exists>msg. res = (([], [], Some (Error msg), 400), st)"
    by (simp add: res_def token_def basicAuthHeaderCredentials_def length_Split
        StatusBadRequest_def Let_def)
next
  fix scheme payload
  assume a: "token = scheme @ CHR '' '' # payload \<and> CHR '' '' \<notin> set scheme
            \<and> CHR '' '' \<notin> set payload"
  then have a1: "header_Get (Header r) ''Authorization'' = scheme @ CHR '' '' # payload"
    and a2: "CHR '' '' \<notin> set scheme" and a3: "CHR '' '' \<notin> set payload"
    unfolding token_def by blast+
  have t: "res = (case DecodeString d payload of
              None \<Rightarrow>
                (([], [],
                  Some (Error
                    ''Attempted access with malformed header, auth data not encoded correctly''),
                  400), st)
            | Some decoded \<Rightarrow>
                if length (Split decoded CHR '':'') \<noteq> 2 then
                  (([], [],
                    Some (Error
                      ''Attempted access with malformed header, values not in basic auth format''),
                    400), st)
                else ((Split decoded CHR '':'' ! 0, Split decoded CHR '':'' ! 1, None, 0), st))"
    unfolding res_def by (rule header_creds_token [OF a1 a2 a3])
  show "case DecodeString d payload of
             None \<Rightarrow> (\<exists>msg. res = (([], [], Some (Error msg), 400), st))
           | Some decoded \<Rightarrow>
               (count_list decoded CHR '':'' \<noteq> 1 \<longrightarrow>
                  (\<exists>msg. res = (([], [], Some (Error msg), 400), st)))
               \<and> (\<forall>user pass. decoded = user @ CHR '':'' # pass \<and> CHR '':'' \<notin> set user
                      \<and> CHR '':'' \<notin> set pass \<longrightarrow>
                    res = ((user, pass, None, 0), st))"
    unfolding t by (auto simp: length_Split Split_two split: option.splits)
next
  fix scheme user pass
  assume std: "DecodeString d = b64_DecodeString"
    and a: "token = scheme @ CHR '' '' # b64_EncodeToString (user @ CHR '':'' # pass)
              \<and> CHR '' '' \<notin> set scheme \<and> CHR '':'' \<notin> set user \<and> CHR '':'' \<notin> set pass"
  from a have a1: "header_Get (Header r) ''Authorization''
                     = scheme @ CHR '' '' # b64_EncodeToString (user @ CHR '':'' # pass)"
    and a2: "CHR '' '' \<notin> set scheme"
    unfolding token_def by blast+
  have "res = (case DecodeString d (b64_EncodeToString (user @ CHR '':'' # pass)) of
              None \<Rightarrow>
                (([], [],
                  Some (Error
                    ''Attempted access with malformed header, auth data not encoded correctly''),
                  400), st)
            | Some decoded \<Rightarrow>
                if length (Split decoded CHR '':'') \<noteq> 2 then
                  (([], [],
                    Some (Error
                      ''Attempted access with malformed header, values not in basic auth format''),
                    400), st)
                else ((Split decoded CHR '':'' ! 0, Split decoded CHR '':'' ! 1, None, 0), st))"
    unfolding res_def by (rule header_creds_token [OF a1 a2 b64_no_space])
  with a show "res = ((user, pass, None, 0), st)"
    by (simp add: std b64_roundtrip Split_two)
qed

lemma ex_request_token: "header_Get (Header (ex_request a)) ''Authorization'' = a"
  by (simp add: ex_request_def header_Get_def)

lemma ex_decode_user_pass: "DecodeString ex_deps ''dXNlcjpwYXNz'' = Some ''user:pass''"
proof -
  have "b64_DecodeString ''dXNlcjpwYXNz'' = Some ''user:pass''" by code_simp
  then show ?thesis by (simp add: ex_deps_def)
qed

lemma ex_decode_userpass: "DecodeString ex_deps ''dXNlcnBhc3M='' = Some ''userpass''"
proof -
  have "b64_DecodeString ''dXNlcnBhc3M='' = Some ''userpass''" by code_simp
  then show ?thesis by (simp add: ex_deps_def)
qed

lemma ex_decode_bad: "DecodeString ex_deps ''dXNl!jpw'' = None"
proof -
  have "b64_DecodeString ''dXNl!jpw'' = None" by code_simp
  then show ?thesis by (simp add: ex_deps_def)
qed

lemma ex_body_request_token: "header_Get (Header (ex_body_request b)) ''Authorization'' = []"
  by (simp add: ex_body_request_def header_Get_def)

theorem C5_header_credentials_witness:
  "basicAuthHeaderCredentials ex_spec ex_deps ex_state (ex_request ''Basic dXNlcjpwYXNz'')
     = ((''user'', ''pass'', None, 0), ex_state)
   \<and> basicAuthHeaderCredentials ex_spec ex_deps ex_state (ex_body_request [])
     = (([], [], Some (Error ''Authorization field missing''), 401),
        ex_state\<lparr>wHeader := [''WWW-Authenticate'' \<mapsto> [basicRealm ex_spec]]\<rparr>)
   \<and> (\<exists>msg. basicAuthHeaderCredentials ex_spec ex_deps ex_state
               (ex_request ''Basic dXNlcjpwYXNz extra'')
             = (([], [], Some (Error msg), 400), ex_state))
   \<and> (\<exists>msg. basicAuthHeaderCredentials ex_spec ex_deps ex_state (ex_request ''Basic dXNl!jpw'')
             = (([], [], Some (Error msg), 400), ex_state))
   \<and> (\<exists>msg. basicAuthHeaderCredentials ex_spec ex_deps ex_state
               (ex_request ''Basic dXNlcnBhc3M='')
             = (([], [], Some (Error msg), 400), ex_state))
   \<and> basicAuthHeaderCredentials ex_spec ex_deps ex_state
       (ex_request (''Basic '' @ b64_EncodeToString ''alice:secret''))
     = ((''alice'', ''secret'', None, 0), ex_state)"
proof (intro conjI)
  note t = C5_header_credentials [of _ ex_spec ex_deps ex_state]
  show "basicAuthHeaderCredentials ex_spec ex_deps ex_state (ex_request ''Basic dXNlcjpwYXNz'')
     = ((''user'', ''pass'', None, 0), ex_state)"
    using t [of "ex_request ''Basic dXNlcjpwYXNz''", THEN conjunct2, THEN conjunct2,
        THEN conjunct1, THEN spec, THEN spec, of "''Basic''" "''dXNlcjpwYXNz''"]
    by (simp add: ex_request_token ex_decode_user_pass)
  show "basicAuthHeaderCredentials ex_spec ex_deps ex_state (ex_body_request [])
     = (([], [], Some (Error ''Authorization field missing''), 401),
        ex_state\<lparr>wHeader := [''WWW-Authenticate'' \<mapsto> [basicRealm ex_spec]]\<rparr>)"
    using t [of "ex_body_request []", THEN conjunct1]
    by (simp add: ex_body_request_token header_Add_def ex_state_def)
  show "\<exists>msg. basicAuthHeaderCredentials ex_spec ex_deps ex_state
               (ex_request ''Basic dXNlcjpwYXNz extra'')
             = (([], [], Some (Error msg), 400), ex_state)"
    using t [of "ex_request ''Basic dXNlcjpwYXNz extra''", THEN conjunct2, THEN conjunct1]
    by (simp add: ex_request_token)
  show "\<exists>msg. basicAuthHeaderCredentials ex_spec ex_deps ex_state (ex_request ''Basic dXNl!jpw'')
             = (([], [], Some (Error msg), 400), ex_state)"
    using t [of "ex_request ''Basic dXNl!jpw''", THEN conjunct2, THEN conjunct2,
        THEN conjunct1, THEN spec, THEN spec, of "''Basic''" "''dXNl!jpw''"]
    by (simp add: ex_request_token ex_decode_bad)
  show "\<exists>msg. basicAuthHeaderCredentials ex_spec ex_deps ex_state
               (ex_request ''Basic dXNlcnBhc3M='')
             = (([], [], Some (Error msg), 400), ex_state)"
    using t [of "ex_request ''Basic dXNlcnBhc3M=''", THEN conjunct2, THEN conjunct2,
        THEN conjunct1, THEN spec, THEN spec, of "''Basic''" "''dXNlcnBhc3M=''"]
    by (simp add: ex_request_token ex_decode_userpass)
  have std: "DecodeString ex_deps = b64_DecodeString" by (simp add: ex_deps_def)
  show "basicAuthHeaderCredentials ex_spec ex_deps ex_state
       (ex_request (''Basic '' @ b64_EncodeToString ''alice:secret''))
     = ((''alice'', ''secret'', None, 0), ex_state)"
    using t [of "ex_request (''Basic '' @ b64_EncodeToString ''alice:secret'')",
        THEN conjunct2, THEN conjunct2, THEN conjunct2, rule_format,
        of "''Basic''" "''alice''" "''secret''"] std
    by (simp add: ex_request_token)
qed

text \<open>
  The claim as written fails for a header that is present with an empty value: it has one
  space-separated token, not two, and the answer is 401 with the challenge, not 400.
\<close>

theorem C5_counterexample:
  "Header (ex_request []) ''Authorization'' = Some [[]]
   \<and> length (Split (header_Get (Header (ex_request [])) ''Authorization'') CHR '' '') = 1
   \<and> basicAuthHeaderCredentials ex_spec ex_deps ex_state (ex_request [])
       = (([], [], Some (Error ''Authorization field missing''), 401),
          ex_state\<lparr>wHeader := [''WWW-Authenticate'' \<mapsto> [basicRealm ex_spec]]\<rparr>)"
  by (simp add: ex_request_def header_Get_def basicAuthHeaderCredentials_def
      requestForBasicAuth_def StatusUnauthorized_def header_Add_def ex_state_def basicRealm_def)

subsection \<open>Failure of the extraction in ProcessRequest\<close>

lemma header_creds_state:
  "snd (basicAuthHeaderCredentials spec d st r) =
     (if header_Get (Header r) ''Authorization'' = []
      then st\<lparr>wHeader := header_Add (wHeader st) ''WWW-Authenticate'' (basicRealm spec)\<rparr>
      else st)"
  by (simp add: basicAuthHeaderCredentials_def requestForBasicAuth_def basicRealm_def Let_def
      split: option.splits)

lemma header_creds_failure:
  assumes "fst (basicAuthHeaderCredentials spec d st r) = (u, p, Some err, code)"
  shows "code = (if header_Get (Header r) ''Authorization'' = [] then 401 else 400)"
  using assms
  by (simp add: basicAuthHeaderCredentials_def requestForBasicAuth_def Let_def
      StatusUnauthorized_def StatusBadRequest_def split: option.splits if_splits)

lemma body_creds_state: "snd (basicAuthBodyCredentials d st r) = st"
  by (simp add: basicAuthBodyCredentials_def Let_def)

lemma body_creds_failure:
  assumes "fst (basicAuthBodyCredentials d st r) = (u, p, Some err, code)"
  shows "code = 400"
  using assms
  by (simp add: basicAuthBodyCredentials_def Let_def StatusBadRequest_def split: if_splits)

lemma header_Del_Add: "header_Del (header_Add h k v) k = header_Del h k"
  by (simp add: header_Del_def header_Add_def)

lemma extractCredentials_state:
  "snd (extractCredentials spec d st r) =
     (case fst (basicAuthHeaderCredentials spec d st r) of
        (u, p, None, c) \<Rightarrow> st
      | (u, p, Some e, c) \<Rightarrow>
          st\<lparr>wHeader :=
               (if ExtractFromBody spec then header_Del (wHeader st) ''WWW-Authenticate''
                else if header_Get (Header r) ''Authorization'' = []
                then header_Add (wHeader st) ''WWW-Authenticate'' (basicRealm spec)
                else wHeader st)\<rparr>)"
proof (cases "basicAuthHeaderCredentials spec d st r")
  case (Pair cr st1)
  obtain u p e c where cr: "cr = (u, p, e, c)" by (cases cr) auto
  have st1: "st1 = (if header_Get (Header r) ''Authorization'' = []
      then st\<lparr>wHeader := header_Add (wHeader st) ''WWW-Authenticate'' (basicRealm spec)\<rparr>
      else st)"
    using header_creds_state [of spec d st r] Pair by simp
  show ?thesis
  proof (cases e)
    case None
    then have "header_Get (Header r) ''Authorization'' \<noteq> []"
      using Pair cr
      by (auto simp: basicAuthHeaderCredentials_def requestForBasicAuth_def Let_def
          split: option.splits if_splits)
    with None Pair cr st1 show ?thesis
      by (simp add: extractCredentials_def)
  next
    case (Some err)
    with Pair cr st1 show ?thesis
      by (simp add: extractCredentials_def body_creds_state header_Del_Add)
  qed
qed

text \<open>
  C9 (as amended). When the extraction of ProcessRequest fails, the request fails with the
  error and code of the last attempt, and the response header differs from the one before
  the request in \<^verbatim>\<open>WWW-Authenticate\<close> only: the challenge is added exactly when the body is
  not configured and the \<^verbatim>\<open>Authorization\<close> header is absent or empty (code 401); with the
  body not configured and a malformed header nothing is added (code 400); with the body
  configured every \<^verbatim>\<open>WWW-Authenticate\<close> value is removed (code 400).
\<close>

theorem C9_extraction_failure:
  assumes "extractCredentials spec d st r = ((username, password, Some err, code), st')"
  shows "ProcessRequest spec d st r = ((Some err, code), st')
    \<and> st' = st\<lparr>wHeader :=
               (if ExtractFromBody spec then header_Del (wHeader st) ''WWW-Authenticate''
                else if header_Get (Header r) ''Authorization'' = []
                then header_Add (wHeader st) ''WWW-Authenticate'' (basicRealm spec)
                else wHeader st)\<rparr>
    \<and> code = (if \<not> ExtractFromBody spec \<and> header_Get (Header r) ''Authorization'' = []
              then 401 else 400)"
proof (intro conjI)
  show "ProcessRequest spec d st r = ((Some err, code), st')"
    using assms by (simp add: ProcessRequest_def)
  obtain cr st1 where h: "basicAuthHeaderCredentials spec d st r = (cr, st1)"
    by (cases "basicAuthHeaderCredentials spec d st r") auto
  obtain u p e c where cr: "cr = (u, p, e, c)" by (cases cr) auto
  have e: "e \<noteq> None"
    using assms h cr by (cases e) (auto simp: extractCredentials_def)
  then obtain e1 where e1: "e = Some e1" by auto
  show "st' = st\<lparr>wHeader :=
               (if ExtractFromBody spec then header_Del (wHeader st) ''WWW-Authenticate''
                else if header_Get (Header r) ''Authorization'' = []
                then header_Add (wHeader st) ''WWW-Authenticate'' (basicRealm spec)
                else wHeader st)\<rparr>"
    using extractCredentials_state [of spec d st r] assms h cr e1 by simp
  have c: "c = (if header_Get (Header r) ''Authorization'' = [] then 401 else 400)"
    using header_creds_failure [of spec d st r u p e1 c] h cr e1 by simp
  show "code = (if \<not> ExtractFromBody spec \<and> header_Get (Header r) ''Authorization'' = []
              then 401 else 400)"
  proof (cases "ExtractFromBody spec")
    case True
    with assms h cr e1
    have "fst (basicAuthBodyCredentials d
              (st1\<lparr>wHeader := header_Del (wHeader st1) ''WWW-Authenticate''\<rparr>) r)
            = (username, password, Some err, code)"
      by (simp add: extractCredentials_def)
    from body_creds_failure [OF this] True show ?thesis by simp
  next
    case False
    with assms h cr e1 have "code = c" by (simp add: extractCredentials_def)
    with c False show ?thesis by simp
  qed
qed

lemma ex_extract_missing:
  "extractCredentials ex_spec ex_deps ex_state (ex_body_request []) =
     (([], [], Some (Error ''Authorization field missing''), 401),
      ex_state\<lparr>wHeader := [''WWW-Authenticate'' \<mapsto> [basicRealm ex_spec]]\<rparr>)"
  by (simp add: extractCredentials_def basicAuthHeaderCredentials_def requestForBasicAuth_def
      ex_body_request_def header_Get_def header_Add_def ex_spec_def ex_state_def basicRealm_def
      StatusUnauthorized_def)

theorem C9_extraction_failure_witness:
  "extractCredentials ex_spec ex_deps ex_state (ex_body_request []) =
     (([], [], Some (Error ''Authorization field missing''), 401),
      ex_state\<lparr>wHeader := [''WWW-Authenticate'' \<mapsto> [basicRealm ex_spec]]\<rparr>)
   \<and> ProcessRequest ex_spec ex_deps ex_state (ex_body_request []) =
       ((Some (Error ''Authorization field missing''), 401),
        ex_state\<lparr>wHeader := [''WWW-Authenticate'' \<mapsto> [basicRealm ex_spec]]\<rparr>)
   \<and> \<not> ExtractFromBody ex_spec
   \<and> header_Get (Header (ex_body_request [])) ''Authorization'' = []"
  using C9_extraction_failure [OF ex_extract_missing] ex_extract_missing
  by (simp add: ex_spec_def ex_body_request_def header_Get_def)

text \<open>
  The claim as written fails twice: a malformed header with the body not configured, and an
  absent header with the body configured and no user name in it, both end with code 400
  and no \<^verbatim>\<open>WWW-Authenticate\<close> header in the response.
\<close>

theorem C9_counterexample:
  "\<not> ExtractFromBody ex_spec
   \<and> fst (basicAuthHeaderCredentials ex_spec ex_deps ex_state (ex_request ''Basic''))
       = ([], [], Some (Error
           ''Attempted access with malformed header, header not in basic auth format''), 400)
   \<and> fst (ProcessRequest ex_spec ex_deps ex_state (ex_request ''Basic''))
       = (Some (Error
           ''Attempted access with malformed header, header not in basic auth format''), 400)
   \<and> wHeader (snd (ProcessRequest ex_spec ex_deps ex_state (ex_request ''Basic'')))
        ''WWW-Authenticate'' = None
   \<and> ExtractFromBody ex_body_spec
   \<and> fst (basicAuthHeaderCredentials ex_body_spec ex_deps ex_state (ex_body_request ''nothing''))
       = ([], [], Some (Error ''Authorization field missing''), 401)
   \<and> fst (ProcessRequest ex_body_spec ex_deps ex_state (ex_body_request ''nothing''))
       = (Some (Error ''Body do not contain username''), 400)
   \<and> wHeader (snd (ProcessRequest ex_body_spec ex_deps ex_state (ex_body_request ''nothing'')))
        ''WWW-Authenticate'' = None"
  by (simp add: ProcessRequest_def extractCredentials_def basicAuthHeaderCredentials_def
      basicAuthBodyCredentials_def requestForBasicAuth_def ex_body_request_def ex_request_def
      ex_body_spec_def header_Get_def header_Add_def header_Del_def ex_spec_def ex_state_def
      ex_deps_def StatusUnauthorized_def StatusBadRequest_def)

subsection \<open>Identity resolution and the password check in ProcessRequest\<close>

lemma extractCredentials_frame:
  "\<exists>h. snd (extractCredentials spec d st r) = st\<lparr>wHeader := h\<rparr>"
proof -
  have "\<exists>h. st = st\<lparr>wHeader := h\<rparr>"
    by (rule exI [of _ "wHeader st"]) simp
  then show ?thesis
    unfolding extractCredentials_state
    by (auto split: prod.splits option.splits)
qed

lemma extractCredentials_store [simp]:
  "extractCredentials spec (d\<lparr>CheckSessionAndIdentityForValidKey := f\<rparr>) st r
     = extractCredentials spec d st r"
  by (simp add: extractCredentials_def basicAuthHeaderCredentials_def
      basicAuthBodyCredentials_def Let_def cong: option.case_cong if_cong prod.case_cong)

lemma compare_lookups:
  "compareHashAndPassword spec d (st\<lparr>lookups := l\<rparr>) hash password =
     (fst (compareHashAndPassword spec d st hash password),
      (snd (compareHashAndPassword spec d st hash password))\<lparr>lookups := l\<rparr>)"
  by (simp add: compareHashAndPassword_def doBcryptWithCache_def bcryptCompare_def
      cache_Get_def cache_Set_def Let_def split: option.splits)

lemma compare_store [simp]:
  "compareHashAndPassword spec (d\<lparr>CheckSessionAndIdentityForValidKey := f\<rparr>) st hash password
     = compareHashAndPassword spec d st hash password"
  by (simp add: compareHashAndPassword_def doBcryptWithCache_def bcryptCompare_def Let_def
      cong: option.case_cong if_cong)

lemma handleAuthFail_eq:
  "handleAuthFail spec st token =
     ((Error ''User not authorised'', 401),
      st\<lparr>wHeader := header_Add (wHeader st) ''WWW-Authenticate'' (basicRealm spec),
         authFailed := authFailed st @ [token],
         healthValues := healthValues st @ [(''KeyFailure'', ''-1'')]\<rparr>)"
  by (simp add: handleAuthFail_def requestForBasicAuth_def basicRealm_def Let_def
      StatusUnauthorized_def)

lemma checkPasswordAndBind_key:
  assumes "st' = st\<lparr>lookups := l'\<rparr>"
  shows "fst (checkPasswordAndBind spec d st' token session k' password)
           = fst (checkPasswordAndBind spec d st token session k password)
       \<and> unkeyed (snd (checkPasswordAndBind spec d st' token session k' password))
           = unkeyed (snd (checkPasswordAndBind spec d st token session k password))"
  using assms
  by (cases "BasicAuthData_Hash session"; cases "BaseIdentityProvidedBy spec";
      cases "compareHashAndPassword spec d st (BasicAuthData_Password session) password")
    (auto simp: checkPasswordAndBind_def compare_lookups handleAuthFail_eq unkeyed_def
      split: option.splits)


lemma compare_keeps_lookups:
  "lookups (snd (compareHashAndPassword spec d st hash password)) = lookups st"
  by (simp add: compareHashAndPassword_def doBcryptWithCache_def bcryptCompare_def
      cache_Set_def Let_def split: option.splits)

lemma checkPasswordAndBind_lookups:
  "lookups (snd (checkPasswordAndBind spec d st token session k password)) = lookups st"
  using compare_keeps_lookups [of spec d st "BasicAuthData_Password session" password]
  by (cases "BasicAuthData_Hash session"; cases "BaseIdentityProvidedBy spec";
      cases "compareHashAndPassword spec d st (BasicAuthData_Password session) password")
    (auto simp: checkPasswordAndBind_def handleAuthFail_eq split: option.splits)

lemma checkPasswordAndBind_store [simp]:
  "checkPasswordAndBind spec (d\<lparr>CheckSessionAndIdentityForValidKey := f\<rparr>) st token session k
     password = checkPasswordAndBind spec d st token session k password"
  by (cases "BasicAuthData_Hash session") (simp_all add: checkPasswordAndBind_def)

lemma resolveSession_eq:
  "resolveSession spec d st username =
     (let canon = generateToken d (OrgID spec) username;
          legacy = storage_GenerateToken d (OrgID spec) (TrimPrefix username (OrgID spec)) []
      in case CheckSessionAndIdentityForValidKey d canon of
           Some s \<Rightarrow> (Some (canon, s), st\<lparr>lookups := lookups st @ [canon]\<rparr>)
         | None \<Rightarrow>
             if HashKeyFunction d = [] then (None, st\<lparr>lookups := lookups st @ [canon]\<rparr>)
             else (case CheckSessionAndIdentityForValidKey d legacy of
                     Some s \<Rightarrow> (Some (legacy, s), st\<lparr>lookups := lookups st @ [canon, legacy]\<rparr>)
                   | None \<Rightarrow> (None, st\<lparr>lookups := lookups st @ [canon, legacy]\<rparr>)))"
  by (simp add: resolveSession_def checkSession_def Let_def split: option.splits)

lemma ProcessRequest_extracted:
  assumes "extractCredentials spec d st r = ((username, password, None, code), st1)"
  shows "ProcessRequest spec d st r =
           (case resolveSession spec d st1 username of
              (None, st2) \<Rightarrow>
                (case handleAuthFail spec st2 (header_Get (Header r) ''Authorization'') of
                   ((err, code'), st3) \<Rightarrow> ((Some err, code'), st3))
            | (Some (keyName, session), st2) \<Rightarrow>
                checkPasswordAndBind spec d st2 (header_Get (Header r) ''Authorization'')
                  session keyName password)"
  using assms by (simp add: ProcessRequest_def Let_def)

lemma extracted_lookups:
  assumes "extractCredentials spec d st r = (cr, st1)"
  shows "lookups st1 = lookups st"
  using extractCredentials_frame [of spec d st r] assms by auto

text \<open>
  C8. For a request whose credentials were extracted: the canonical key of the
  organisation and user name is looked up first; the legacy key, derived from the user
  name without the organisation prefix, is looked up next exactly when the canonical key
  found nothing and the legacy mode is on (\<^verbatim>\<open>HashKeyFunction\<close> not empty), and nothing else is
  looked up. When both lookups find nothing, or the first finds nothing and the mode is off,
  the request fails with 401 and the message of an unauthorised user. When the legacy
  lookup finds a session, the result and the state are those of a run in which the
  canonical lookup finds that session, but for the log of lookups and the key name bound.
\<close>

theorem C8_identity_resolution:
  fixes spec :: APISpec and d :: deps and st st1 :: gw_state and r :: request
    and username password :: string and code :: int
  defines "canon \<equiv> generateToken d (OrgID spec) username"
    and "legacy \<equiv>
           storage_GenerateToken d (OrgID spec) (TrimPrefix username (OrgID spec)) []"
    and "store \<equiv> CheckSessionAndIdentityForValidKey d"
  assumes ex: "extractCredentials spec d st r = ((username, password, None, code), st1)"
  shows "lookups (snd (ProcessRequest spec d st r)) =
           lookups st @ (if store canon = None \<and> HashKeyFunction d \<noteq> []
                         then [canon, legacy] else [canon])
    \<and> (store canon = None \<and> (HashKeyFunction d = [] \<or> store legacy = None) \<longrightarrow>
         fst (ProcessRequest spec d st r) = (Some (Error ''User not authorised''), 401))
    \<and> (\<forall>session.
          store canon = None \<and> HashKeyFunction d \<noteq> [] \<and> store legacy = Some session \<longrightarrow>
          fst (ProcessRequest spec d st r) =
            fst (ProcessRequest spec
                   (d\<lparr>CheckSessionAndIdentityForValidKey := store(canon \<mapsto> session)\<rparr>) st r)
          \<and> unkeyed (snd (ProcessRequest spec d st r)) =
              unkeyed (snd (ProcessRequest spec
                   (d\<lparr>CheckSessionAndIdentityForValidKey := store(canon \<mapsto> session)\<rparr>) st r)))"
proof (intro conjI allI impI)
  note pr = ProcessRequest_extracted [OF ex]
  have l1: "lookups st1 = lookups st" using extracted_lookups [OF ex] .
  show "lookups (snd (ProcessRequest spec d st r)) =
           lookups st @ (if store canon = None \<and> HashKeyFunction d \<noteq> []
                         then [canon, legacy] else [canon])"
    unfolding pr resolveSession_eq canon_def legacy_def store_def
    by (simp add: Let_def l1 handleAuthFail_eq checkPasswordAndBind_lookups split: option.splits)
  show "fst (ProcessRequest spec d st r) = (Some (Error ''User not authorised''), 401)"
    if "store canon = None \<and> (HashKeyFunction d = [] \<or> store legacy = None)"
    using that unfolding pr resolveSession_eq canon_def legacy_def store_def
    by (auto simp: Let_def handleAuthFail_eq)
  fix session
  assume a: "store canon = None \<and> HashKeyFunction d \<noteq> [] \<and> store legacy = Some session"
  let ?d = "d\<lparr>CheckSessionAndIdentityForValidKey := store(canon \<mapsto> session)\<rparr>"
  let ?token = "header_Get (Header r) ''Authorization''"
  have ex': "extractCredentials spec ?d st r = ((username, password, None, code), st1)"
    using ex by simp
  have 1: "ProcessRequest spec d st r =
             checkPasswordAndBind spec d (st1\<lparr>lookups := lookups st1 @ [canon, legacy]\<rparr>)
               ?token session legacy password"
    using a unfolding pr resolveSession_eq canon_def legacy_def store_def
    by (simp add: Let_def)
  have 2: "ProcessRequest spec ?d st r =
             checkPasswordAndBind spec d (st1\<lparr>lookups := lookups st1 @ [canon]\<rparr>)
               ?token session canon password"
    unfolding ProcessRequest_extracted [OF ex'] resolveSession_eq
    by (simp add: Let_def canon_def)
  have 3: "st1\<lparr>lookups := lookups st1 @ [canon, legacy]\<rparr>
             = (st1\<lparr>lookups := lookups st1 @ [canon]\<rparr>)\<lparr>lookups := lookups st1 @ [canon, legacy]\<rparr>"
    by simp
  from checkPasswordAndBind_key [OF 3, of spec d ?token session legacy password canon]
  show "fst (ProcessRequest spec d st r) = fst (ProcessRequest spec ?d st r)"
    and "unkeyed (snd (ProcessRequest spec d st r)) = unkeyed (snd (ProcessRequest spec ?d st r))"
    unfolding 1 2 by simp_all
qed

lemma ex_extract_bob:
  "extractCredentials ex_spec ex_deps ex_state (ex_request ''Basic Ym9iOmh1bnRlcjI='')
     = ((''bob'', ''hunter2'', None, 0), ex_state)"
proof -
  have "b64_DecodeString ''Ym9iOmh1bnRlcjI='' = Some ''bob:hunter2''" by code_simp
  then show ?thesis
    by (simp add: extractCredentials_def basicAuthHeaderCredentials_def ex_request_def
        header_Get_def ex_deps_def)
qed

lemma ex_extract_dave:
  "extractCredentials ex_spec ex_deps ex_state (ex_request ''Basic ZGF2ZTp4'')
     = ((''dave'', ''x'', None, 0), ex_state)"
proof -
  have "b64_DecodeString ''ZGF2ZTp4'' = Some ''dave:x''" by code_simp
  then show ?thesis
    by (simp add: extractCredentials_def basicAuthHeaderCredentials_def ex_request_def
        header_Get_def ex_deps_def)
qed

theorem C8_identity_resolution_witness:
  "extractCredentials ex_spec ex_deps ex_state (ex_request ''Basic Ym9iOmh1bnRlcjI='')
     = ((''bob'', ''hunter2'', None, 0), ex_state)
   \<and> lookups (snd (ProcessRequest ex_spec ex_deps ex_state
                     (ex_request ''Basic Ym9iOmh1bnRlcjI=''))) = [''key:org1:bob'', ''org1bob'']
   \<and> fst (ProcessRequest ex_spec ex_deps ex_state (ex_request ''Basic Ym9iOmh1bnRlcjI=''))
       = fst (ProcessRequest ex_spec
               (ex_deps\<lparr>CheckSessionAndIdentityForValidKey :=
                          ex_store(''key:org1:bob'' \<mapsto> ex_session HashPlainText ''hunter2'')\<rparr>)
               ex_state (ex_request ''Basic Ym9iOmh1bnRlcjI=''))
   \<and> lookups (snd (ProcessRequest ex_spec ex_deps ex_state (ex_request ''Basic ZGF2ZTp4'')))
       = [''key:org1:dave'', ''org1dave'']
   \<and> fst (ProcessRequest ex_spec ex_deps ex_state (ex_request ''Basic ZGF2ZTp4''))
       = (Some (Error ''User not authorised''), 401)"
proof -
  have k: "generateToken ex_deps ''org1'' u = ''key:org1:'' @ u"
    "storage_GenerateToken ex_deps ''org1'' u [] = ''org1'' @ u"
    "HashKeyFunction ex_deps \<noteq> []" "CheckSessionAndIdentityForValidKey ex_deps = ex_store"
    "OrgID ex_spec = ''org1''" for u
    by (simp_all add: ex_deps_def ex_spec_def)
  have s: "ex_store ''key:org1:bob'' = None"
    "ex_store ''org1bob'' = Some (ex_session HashPlainText ''hunter2'')"
    "ex_store ''key:org1:dave'' = None" "ex_store ''org1dave'' = None"
    by (simp_all add: ex_store_def)
  have t: "TrimPrefix ''bob'' ''org1'' = ''bob''" "TrimPrefix ''dave'' ''org1'' = ''dave''"
    by (simp_all add: TrimPrefix_def HasPrefix_def)
  show ?thesis
    using C8_identity_resolution [OF ex_extract_bob] C8_identity_resolution [OF ex_extract_dave]
      ex_extract_bob
    by (simp add: k s t ex_state_def)
qed

text \<open>
  C10. For a request whose credentials were extracted and whose session was found, with a
  hash kind that is neither BCrypt nor plain text: the request is authenticated with code
  200 whatever the password, the slow comparison is not called, and the cache and the
  events of failed authentication are as before.
\<close>

theorem C10_other_hash_kind:
  assumes "extractCredentials spec d st r = ((username, password, None, code), st1)"
    and "resolveSession spec d st1 username = (Some (keyName, session), st2)"
    and "BasicAuthData_Hash session = HashOther kind"
  shows "fst (ProcessRequest spec d st r) = (None, 200)
    \<and> bcryptCalls (snd (ProcessRequest spec d st r)) = bcryptCalls st
    \<and> basicAuthCache (snd (ProcessRequest spec d st r)) = basicAuthCache st
    \<and> authFailed (snd (ProcessRequest spec d st r)) = authFailed st
    \<and> (\<forall>supplied. fst (checkPasswordAndBind spec d st2
                          (header_Get (Header r) ''Authorization'') session keyName supplied)
                    = (None, 200))"
proof -
  obtain h where st1: "st1 = st\<lparr>wHeader := h\<rparr>"
    using extractCredentials_frame [of spec d st r] assms(1) by auto
  obtain l where st2: "st2 = st1\<lparr>lookups := l\<rparr>"
    using assms(2) unfolding resolveSession_eq
    by (auto simp: Let_def split: option.splits if_splits)
  have c: "checkPasswordAndBind spec d st2 token session keyName supplied =
             ((None, 200),
              (case BaseIdentityProvidedBy spec of
                 BasicAuthUser \<Rightarrow> st2\<lparr>ctxSession := Some (session, keyName)\<rparr>
               | UnsetAuth \<Rightarrow> st2\<lparr>ctxSession := Some (session, keyName)\<rparr>
               | OtherAuth _ \<Rightarrow> st2))" for token supplied
    using assms(3) by (simp add: checkPasswordAndBind_def StatusOK_def)
  have p: "ProcessRequest spec d st r =
             checkPasswordAndBind spec d st2 (header_Get (Header r) ''Authorization'')
               session keyName password"
    using ProcessRequest_extracted [OF assms(1)] assms(2) by simp
  show ?thesis
    unfolding p c
    by (cases "BaseIdentityProvidedBy spec") (simp_all add: st2 st1)
qed

lemma ex_extract_carol:
  "extractCredentials ex_spec ex_deps ex_state (ex_request ''Basic Y2Fyb2w6YW55dGhpbmc='')
     = ((''carol'', ''anything'', None, 0), ex_state)"
proof -
  have "b64_DecodeString ''Y2Fyb2w6YW55dGhpbmc='' = Some ''carol:anything''" by code_simp
  then show ?thesis
    by (simp add: extractCredentials_def basicAuthHeaderCredentials_def ex_request_def
        header_Get_def ex_deps_def)
qed

lemma ex_resolve_carol:
  "resolveSession ex_spec ex_deps ex_state ''carol''
     = (Some (''key:org1:carol'', ex_session (HashOther ''sha256'') ''abc''),
        ex_state\<lparr>lookups := [''key:org1:carol'']\<rparr>)"
  by (simp add: resolveSession_def checkSession_def ex_deps_def ex_spec_def ex_store_def
      ex_state_def Let_def)

theorem C10_other_hash_kind_witness:
  "extractCredentials ex_spec ex_deps ex_state (ex_request ''Basic Y2Fyb2w6YW55dGhpbmc='')
     = ((''carol'', ''anything'', None, 0), ex_state)
   \<and> resolveSession ex_spec ex_deps ex_state ''carol''
     = (Some (''key:org1:carol'', ex_session (HashOther ''sha256'') ''abc''),
        ex_state\<lparr>lookups := [''key:org1:carol'']\<rparr>)
   \<and> BasicAuthData_Hash (ex_session (HashOther ''sha256'') ''abc'') = HashOther ''sha256''
   \<and> fst (ProcessRequest ex_spec ex_deps ex_state (ex_request ''Basic Y2Fyb2w6YW55dGhpbmc=''))
       = (None, 200)
   \<and> bcryptCalls (snd (ProcessRequest ex_spec ex_deps ex_state
                         (ex_request ''Basic Y2Fyb2w6YW55dGhpbmc=''))) = []"
proof -
  have h: "BasicAuthData_Hash (ex_session (HashOther ''sha256'') ''abc'') = HashOther ''sha256''"
    by (simp add: ex_session_def)
  show ?thesis
    using C10_other_hash_kind [OF ex_extract_carol ex_resolve_carol h] ex_extract_carol
      ex_resolve_carol h
    by (simp add: ex_state_def)
qed

subsection \<open>The error response\<close>

lemma header_Set_Set [simp]: "header_Set (header_Set h k a) k b = header_Set h k b"
  by (simp add: header_Set_def)

lemma header_Add_other: "k' \<noteq> k \<Longrightarrow> header_Add h k v k' = h k'"
  by (simp add: header_Add_def)

lemma header_Set_same: "header_Set h k v k = Some [v]"
  by (simp add: header_Set_def)

lemma otherHeaders_ContentType: "otherHeaders spec h ContentType = h ContentType"
  by (simp add: otherHeaders_def header_Add_other ContentType_def XGenerator_def
      Connection_def Let_def)

lemma writeErrorResponse_select:
  fixes spec :: ErrorHandlerSpec and d :: err_deps and st :: err_state and r :: err_request
    and errMsg :: string and errCode :: int
  defines "xml \<equiv> header_Get (req_Header r) ContentType = ApplicationXML"
  defines "names \<equiv> spec_templateOrder xml errCode"
  defines "ct \<equiv> (if find (\<lambda>n. templates_Lookup d n \<noteq> None) (take 2 names) = None
                  then ApplicationJSON
                  else if xml then ApplicationXML else ApplicationJSON)"
  defines "w \<equiv> otherHeaders spec (header_Set (respHeader st) ContentType ct)"
  shows "writeErrorResponse spec d st r errMsg errCode =
           (case find (\<lambda>n. templates_Lookup d n \<noteq> None) names of
              None \<Rightarrow> Panic (st\<lparr>respHeader := w, respWritten := Some (errCode, w)\<rparr>)
            | Some n \<Rightarrow>
                Return (st\<lparr>respHeader := w, respWritten := Some (errCode, w),
                           respTemplate := Some n,
                           respBody := map_option (\<lambda>t. Execute d t (JSEscapeString d errMsg))
                                         (templates_Lookup d n)\<rparr>))"
proof (cases xml)
  case True
  then have x: "header_Get (req_Header r) ContentType = ApplicationXML" by (simp add: xml_def)
  show ?thesis
    unfolding w_def ct_def names_def
    by (cases "templates_Lookup d (''error_'' @ Itoa errCode @ ''.xml'')";
        cases "templates_Lookup d ''error.xml''"; cases "templates_Lookup d ''error.json''")
      (simp_all add: True x writeErrorResponse_def spec_templateOrder_def otherHeaders_def
        defaultTemplateName_def defaultTemplateFormat_def defaultContentType_def Let_def)
next
  case False
  then have x: "header_Get (req_Header r) ContentType \<noteq> ApplicationXML" by (simp add: xml_def)
  show ?thesis
    unfolding w_def ct_def names_def
    by (cases "templates_Lookup d (''error_'' @ Itoa errCode @ ''.json'')";
        cases "templates_Lookup d ''error.json''")
      (simp_all add: False x writeErrorResponse_def spec_templateOrder_def otherHeaders_def
        defaultTemplateName_def defaultTemplateFormat_def defaultContentType_def Let_def)
qed

lemma trackError_response:
  "respWritten (trackError spec d st r errCode) = respWritten st"
  "respTemplate (trackError spec d st r errCode) = respTemplate st"
  "respBody (trackError spec d st r errCode) = respBody st"
  by (simp_all add: trackError_def recordError_def Let_def split: prod.splits)

text \<open>
  C6. When HandleError writes a response, the template executed is the first one the
  collection holds among the template of the status code in the negotiated format, the
  generic template in that format and the generic JSON template, where the format is XML
  exactly when the first \<^verbatim>\<open>Content-Type\<close> value of the request is \<^verbatim>\<open>application/xml\<close> and
  JSON otherwise; the body is that template executed on the escaped message. The response
  goes out with the status code and with the content type of the negotiated format, but
  with \<^verbatim>\<open>application/json\<close> when neither of the first two templates exists. When the
  collection holds none of the three, the handler panics on the nil template.
\<close>

theorem C6_template_selection:
  fixes spec :: ErrorHandlerSpec and d :: err_deps and st :: err_state and r :: err_request
    and errMsg :: string and errCode :: int
  defines "xml \<equiv> header_Get (req_Header r) ContentType = ApplicationXML"
  defines "names \<equiv> spec_templateOrder xml errCode"
  defines "out \<equiv> HandleError spec d st r errMsg errCode True"
  shows "(case find (\<lambda>n. templates_Lookup d n \<noteq> None) names of
            Some n \<Rightarrow>
              (\<exists>st'. out = Return st') \<and> respTemplate (state_of out) = Some n
              \<and> respBody (state_of out) =
                  map_option (\<lambda>t. Execute d t (JSEscapeString d errMsg)) (templates_Lookup d n)
          | None \<Rightarrow> (\<exists>st'. out = Panic st') \<and> respTemplate (state_of out) = respTemplate st)
       \<and> (\<exists>h. respWritten (state_of out) = Some (errCode, h)
              \<and> h ContentType =
                  Some [if find (\<lambda>n. templates_Lookup d n \<noteq> None) (take 2 names) = None
                        then ApplicationJSON
                        else if xml then ApplicationXML else ApplicationJSON])"
proof -
  define ct where "ct = (if find (\<lambda>n. templates_Lookup d n \<noteq> None) (take 2 names) = None
                        then ApplicationJSON
                        else if xml then ApplicationXML else ApplicationJSON)"
  define w where "w = otherHeaders spec (header_Set (respHeader st) ContentType ct)"
  have sel: "writeErrorResponse spec d st r errMsg errCode =
           (case find (\<lambda>n. templates_Lookup d n \<noteq> None) names of
              None \<Rightarrow> Panic (st\<lparr>respHeader := w, respWritten := Some (errCode, w)\<rparr>)
            | Some n \<Rightarrow>
                Return (st\<lparr>respHeader := w, respWritten := Some (errCode, w),
                           respTemplate := Some n,
                           respBody := map_option (\<lambda>t. Execute d t (JSEscapeString d errMsg))
                                         (templates_Lookup d n)\<rparr>))"
    unfolding w_def ct_def names_def xml_def by (rule writeErrorResponse_select)
  have wct: "w ContentType = Some [ct]"
    by (simp add: w_def otherHeaders_ContentType header_Set_same)
  show ?thesis
  proof (cases "find (\<lambda>n. templates_Lookup d n \<noteq> None) names")
    case None
    then have "out = Panic (st\<lparr>respHeader := w, respWritten := Some (errCode, w)\<rparr>)"
      by (simp add: out_def HandleError_def sel)
    with None wct show ?thesis
      by (simp add: state_of_def ct_def)
  next
    case (Some n)
    then have "out = Return (trackError spec d
                 (st\<lparr>respHeader := w, respWritten := Some (errCode, w),
                     respTemplate := Some n,
                     respBody := map_option (\<lambda>t. Execute d t (JSEscapeString d errMsg))
                                   (templates_Lookup d n)\<rparr>) r errCode)"
      by (simp add: out_def HandleError_def sel)
    with Some wct show ?thesis
      by (simp add: state_of_def ct_def trackError_response)
  qed
qed

lemma ex_names_404_xml:
  "spec_templateOrder True 404 = [''error_404.xml'', ''error.xml'', ''error.json'']"
  by (simp add: spec_templateOrder_def Itoa_def digits.simps digit_char_def Let_def)

lemma ex_erequest_xml:
  "(header_Get (req_Header (ex_erequest ''application/xml'')) ContentType = ApplicationXML) = True"
  by (simp add: ex_erequest_def header_Get_def ContentType_def ApplicationXML_def)

theorem C6_template_selection_witness:
  "respTemplate (state_of (HandleError (ex_espec 0)
       (ex_edeps [''error_404.xml'', ''error.xml'', ''error.json'']) (ex_estate ''/a'')
       (ex_erequest ''application/xml'') ''no'' 404 True)) = Some ''error_404.xml''
   \<and> respTemplate (state_of (HandleError (ex_espec 0)
       (ex_edeps [''error.xml'', ''error.json'']) (ex_estate ''/a'')
       (ex_erequest ''application/xml'') ''no'' 404 True)) = Some ''error.xml''
   \<and> respTemplate (state_of (HandleError (ex_espec 0)
       (ex_edeps [''error.json'']) (ex_estate ''/a'')
       (ex_erequest ''application/xml'') ''no'' 404 True)) = Some ''error.json''
   \<and> map_option (\<lambda>(code, h). (code, h ContentType))
        (respWritten (state_of (HandleError (ex_espec 0)
           (ex_edeps [''error.json'']) (ex_estate ''/a'')
           (ex_erequest ''application/xml'') ''no'' 404 True)))
       = Some (404, Some [''application/json''])
   \<and> map_option (\<lambda>(code, h). (code, h ContentType))
        (respWritten (state_of (HandleError (ex_espec 0)
           (ex_edeps [''error.xml'', ''error.json'']) (ex_estate ''/a'')
           (ex_erequest ''application/xml'') ''no'' 404 True)))
       = Some (404, Some [''application/xml''])"
proof -
  note t = C6_template_selection [where r = "ex_erequest ''application/xml''"
      and errCode = 404 and spec = "ex_espec 0" and st = "ex_estate ''/a''"
      and errMsg = "''no''", unfolded ex_erequest_xml ex_names_404_xml]
  have l: "templates_Lookup (ex_edeps names) n
             = (if n \<in> set names then Some (''template '' @ n) else None)" for names n
    by (simp add: ex_edeps_def)
  show ?thesis
    using t [where d = "ex_edeps [''error_404.xml'', ''error.xml'', ''error.json'']"]
      t [where d = "ex_edeps [''error.xml'', ''error.json'']"]
      t [where d = "ex_edeps [''error.json'']"]
    by (auto simp: l ApplicationJSON_def ApplicationXML_def)
qed

subsection \<open>The analytics record\<close>

lemma recordError_hit:
  "\<exists>rec. recordHits (recordError spec d st r errCode) = recordHits st @ [rec]
     \<and> rec_RawPath rec = normalisePath (if Proxy_StripListenPath spec
                                         then StripListenPath d (URL_Path st) else URL_Path st)
     \<and> URL_Path (recordError spec d st r errCode) = rec_RawPath rec
     \<and> rec_ExpireAt rec = time_Unix (calcExpiry d (expiresAfterOf spec d))"
  by (simp add: recordError_def Let_def split: prod.splits)

lemma writeErrorResponse_keeps:
  assumes "writeErrorResponse spec d st r errMsg errCode = Return st1"
  shows "URL_Path st1 = URL_Path st \<and> recordHits st1 = recordHits st"
  using assms unfolding writeErrorResponse_select
  by (auto split: option.splits)

lemma HandleError_recorded:
  assumes "HandleError spec d st r errMsg errCode writeResponse = Return st'"
    and "\<not> DoNotTrack spec" and "StoreAnalytics d (RealIP r)"
  shows "\<exists>st1. URL_Path st1 = URL_Path st \<and> recordHits st1 = recordHits st
           \<and> recordHits st' = recordHits (recordError spec d st1 r errCode)
           \<and> URL_Path st' = URL_Path (recordError spec d st1 r errCode)"
proof (cases writeResponse)
  case True
  with assms(1) obtain st1 where w: "writeErrorResponse spec d st r errMsg errCode = Return st1"
    and st': "st' = trackError spec d st1 r errCode"
    by (auto simp: HandleError_def split: outcome.splits)
  from writeErrorResponse_keeps [OF w] st' assms(2,3) show ?thesis
    by (intro exI [of _ st1]) (simp add: trackError_def Let_def)
next
  case False
  with assms show ?thesis
    by (intro exI [of _ st]) (auto simp: HandleError_def trackError_def Let_def)
qed

lemma normalisePath_eq:
  "normalisePath p = (if p \<noteq> [] \<and> hd p = CHR ''/'' then p else CHR ''/'' # p)"
  by (cases p) (auto simp: normalisePath_def HasPrefix_def TrimPrefix_def)

text \<open>
  C4 (as amended). When HandleError records the request, the raw path recorded, which is
  also the new request path, is the request path (after the listen path is stripped, when
  configured) if that path begins with a slash, and that path with one slash in front
  otherwise: the slash is prefixed, and one slash is removed again when the result begins
  with two.
\<close>

theorem C4_raw_path:
  fixes spec :: ErrorHandlerSpec and d :: err_deps and st st' :: err_state
  defines "path \<equiv> (if Proxy_StripListenPath spec then StripListenPath d (URL_Path st)
                   else URL_Path st)"
  assumes "HandleError spec d st r errMsg errCode writeResponse = Return st'"
    and "\<not> DoNotTrack spec" and "StoreAnalytics d (RealIP r)"
  shows "\<exists>rec. recordHits st' = recordHits st @ [rec]
           \<and> rec_RawPath rec = (if path \<noteq> [] \<and> hd path = CHR ''/'' then path
                                else CHR ''/'' # path)
           \<and> URL_Path st' = rec_RawPath rec"
proof -
  from HandleError_recorded [OF assms(2-4)]
  obtain st1 where 1: "URL_Path st1 = URL_Path st" "recordHits st1 = recordHits st"
    "recordHits st' = recordHits (recordError spec d st1 r errCode)"
    "URL_Path st' = URL_Path (recordError spec d st1 r errCode)" by blast
  from recordError_hit [of spec d st1 r errCode] 1 show ?thesis
    by (auto simp: normalisePath_eq path_def)
qed

lemma ex_HandleError_Return:
  "HandleError spec d st r errMsg errCode False
     = Return (state_of (HandleError spec d st r errMsg errCode False))"
  by (simp add: HandleError_def state_of_def)

lemma ex_tracked:
  "\<not> DoNotTrack (ex_espec n)" "StoreAnalytics (ex_edeps names) (RealIP r)"
  "\<not> Proxy_StripListenPath (ex_espec n)" "\<not> EnforceOrgDataAge (ex_espec n)"
  "ExpireAnalyticsAfter (ex_espec n) = n" "now_calcExpiry (ex_edeps names) = 1700000000000000000"
  by (simp_all add: ex_espec_def ex_edeps_def)

theorem C4_raw_path_witness:
  "map rec_RawPath (recordHits (state_of (HandleError (ex_espec 0) (ex_edeps [])
       (ex_estate ''/foo/bar'') (ex_erequest ''text/plain'') ''no'' 404 False)))
     = [''/foo/bar'']
   \<and> map rec_RawPath (recordHits (state_of (HandleError (ex_espec 0) (ex_edeps [])
       (ex_estate ''foo/bar'') (ex_erequest ''text/plain'') ''no'' 404 False)))
     = [''/foo/bar'']"
  using C4_raw_path [OF ex_HandleError_Return ex_tracked(1,2), of 0 "[]" "ex_estate ''/foo/bar''"
      "ex_erequest ''text/plain''" "''no''" 404]
    C4_raw_path [OF ex_HandleError_Return ex_tracked(1,2), of 0 "[]" "ex_estate ''foo/bar''"
      "ex_erequest ''text/plain''" "''no''" 404]
  by (auto simp: ex_tracked ex_estate_def)

text \<open>
  The claim as written fails on its own example: the raw path \<^verbatim>\<open>//foo/bar\<close> becomes
  \<^verbatim>\<open>///foo/bar\<close>, loses one slash and is recorded as \<^verbatim>\<open>//foo/bar\<close>.
\<close>

theorem C4_counterexample:
  "normalisePath ''//foo/bar'' = ''//foo/bar''
   \<and> map rec_RawPath (recordHits (state_of (HandleError (ex_espec 0) (ex_edeps [])
       (ex_estate ''//foo/bar'') (ex_erequest ''text/plain'') ''no'' 404 False)))
     = [''//foo/bar'']"
  by (simp add: HandleError_def trackError_def recordError_def state_of_def normalisePath_def
      HasPrefix_def TrimPrefix_def ex_espec_def ex_edeps_def ex_estate_def ex_erequest_def
      Let_def)

lemma calcExpiry_seconds:
  assumes "- 9223372036 \<le> sint n" and "sint n \<le> 9223372036"
  shows "calcExpiry d n =
           now_calcExpiry d + (if n = 0 then 3153600000 else sint n) * 1000000000"
proof (cases "n = 0")
  case True
  then show ?thesis by (simp add: calcExpiry_def time_Add_def Hour_def Second_def)
next
  case False
  with seconds_no_overflow [OF assms] show ?thesis
    by (simp add: calcExpiry_def time_Add_def)
qed

lemma expiresAfterOf_eq:
  "expiresAfterOf spec d =
     (if EnforceOrgDataAge spec \<and> 0 < sint (OrgSessionExpiry d (spec_OrgID spec))
      then OrgSessionExpiry d (spec_OrgID spec) else ExpireAnalyticsAfter spec)"
  by (simp add: expiresAfterOf_def word_sless_alt Let_def)

text \<open>
  C7 (as amended). When HandleError records the request, the retention is the cap of the
  organisation when the enforcement is on and the cap is positive, and the retention of
  the API otherwise. For a retention between -9223372036 and 9223372036 seconds, the
  expiry recorded is the clock reading plus the retention, in whole seconds, and the clock
  reading plus 100 years of 365 days for a retention of zero. The duration is a 64-bit
  count of nanoseconds, so a retention outside that range wraps around.
\<close>

theorem C7_expiry:
  fixes spec :: ErrorHandlerSpec and d :: err_deps and st st' :: err_state
  defines "retention \<equiv>
             (if EnforceOrgDataAge spec \<and> 0 < sint (OrgSessionExpiry d (spec_OrgID spec))
              then OrgSessionExpiry d (spec_OrgID spec) else ExpireAnalyticsAfter spec)"
  assumes "HandleError spec d st r errMsg errCode writeResponse = Return st'"
    and "\<not> DoNotTrack spec" and "StoreAnalytics d (RealIP r)"
    and "- 9223372036 \<le> sint retention" and "sint retention \<le> 9223372036"
  shows "\<exists>rec. recordHits st' = recordHits st @ [rec]
           \<and> rec_ExpireAt rec =
               time_Unix (now_calcExpiry d)
                 + (if sint retention = 0 then 24 * 3600 * 365 * 100 else sint retention)"
proof -
  from HandleError_recorded [OF assms(2-4)]
  obtain st1 where 1: "recordHits st1 = recordHits st"
    "recordHits st' = recordHits (recordError spec d st1 r errCode)" by blast
  have r: "expiresAfterOf spec d = retention"
    by (simp add: expiresAfterOf_eq retention_def)
  have z: "(sint retention = 0) = (retention = 0)"
    by (metis signed_eq_0_iff)
  have "time_Unix (calcExpiry d retention) =
          time_Unix (now_calcExpiry d) + (if retention = 0 then 3153600000 else sint retention)"
    unfolding calcExpiry_seconds [OF assms(5,6)] by (simp add: time_Unix_def)
  with recordError_hit [of spec d st1 r errCode] 1 r z show ?thesis
    by auto
qed

theorem C7_expiry_witness:
  "map rec_ExpireAt (recordHits (state_of (HandleError (ex_espec 0) (ex_edeps [])
       (ex_estate ''/a'') (ex_erequest ''text/plain'') ''no'' 404 False)))
     = [1700000000 + 3153600000]
   \<and> map rec_ExpireAt (recordHits (state_of (HandleError (ex_espec 3600) (ex_edeps [])
       (ex_estate ''/a'') (ex_erequest ''text/plain'') ''no'' 404 False)))
     = [1700000000 + 3600]
   \<and> map rec_ExpireAt (recordHits (state_of (HandleError
       ((ex_espec 3600)\<lparr>EnforceOrgDataAge := True\<rparr>) (ex_edeps [])
       (ex_estate ''/a'') (ex_erequest ''text/plain'') ''no'' 404 False)))
     = [1700000000 + 60]"
proof -
  have o: "OrgSessionExpiry (ex_edeps []) org = 60" for org by (simp add: ex_edeps_def)
  have e: "\<not> DoNotTrack ((ex_espec 3600)\<lparr>EnforceOrgDataAge := True\<rparr>)"
    by (simp add: ex_espec_def)
  show ?thesis
    using C7_expiry [OF ex_HandleError_Return ex_tracked(1,2), of 0 "[]" "ex_estate ''/a''"
        "ex_erequest ''text/plain''" "''no''" 404]
      C7_expiry [OF ex_HandleError_Return ex_tracked(1,2), of 3600 "[]" "ex_estate ''/a''"
        "ex_erequest ''text/plain''" "''no''" 404]
      C7_expiry [OF ex_HandleError_Return e ex_tracked(2), of "[]" "ex_estate ''/a''"
        "ex_erequest ''text/plain''" "''no''" 404]
    by (auto simp: ex_tracked ex_estate_def time_Unix_def o)
qed

text \<open>
  The claim as written fails for a retention of 9223372037 seconds: the expiry recorded
  lies 292 years before the clock reading.
\<close>

theorem C7_counterexample:
  "\<not> EnforceOrgDataAge (ex_espec 9223372037)
   \<and> sint (ExpireAnalyticsAfter (ex_espec 9223372037)) = 9223372037
   \<and> time_Unix (now_calcExpiry (ex_edeps [])) = 1700000000
   \<and> map rec_ExpireAt (recordHits (state_of (HandleError (ex_espec 9223372037) (ex_edeps [])
       (ex_estate ''/a'') (ex_erequest ''text/plain'') ''no'' 404 False)))
     = [- 7523372037]"
  by (simp add: HandleError_def trackError_def recordError_def state_of_def expiresAfterOf_def
      calcExpiry_def time_Add_def time_Unix_def Second_def ex_espec_def ex_edeps_def
      ex_estate_def ex_erequest_def Let_def)

end
